theory Spec2Isabelle
  imports Main
begin

section \<open>Python values and exceptions\<close>

text \<open>
  The attribute accessors of \<^verbatim>\<open>shared/database.py\<close> read and write row attributes by
  name with \<^verbatim>\<open>getattr\<close>/\<^verbatim>\<open>setattr\<close>, so the value of a content attribute is
  dynamically typed. \<open>pyval\<close> is the universe of values: the scalars a column
  attribute holds, \<^verbatim>\<open>None\<close>, booleans, integers, strings and datetimes (as a
  timestamp), and \<open>PObject\<close>, any object of another type (a mapped instance, a
  collection, a class), given by a description and its truth value.
\<close>

datatype pyval =
  PNone | PBool bool | PInt int | PStr string | PDatetime int | PObject string bool

text \<open>Python truthiness, as used by \<^verbatim>\<open>if translated_text:\<close> and \<^verbatim>\<open>if not source_enabled:\<close>.\<close>

fun truthy :: "pyval \<Rightarrow> bool" where
  "truthy PNone = False"
| "truthy (PBool b) = b"
| "truthy (PInt n) = (n \<noteq> 0)"
| "truthy (PStr s) = (s \<noteq> [])"
| "truthy (PDatetime t) = True"
| "truthy (PObject d b) = b"

text \<open>
  The exceptions the modelled code raises or lets through. \<open>OtherError\<close> stands for
  any exception of a provider or of the module loader that the code does not name.
\<close>

datatype error =
    DatabaseConnectionError
  | ContentNotFoundError
  | AttributeError
  | TypeError
  | ValueError
  | AnalysisException
  | DetachedInstanceError
  | OtherError string

text \<open>
  \<^verbatim>\<open>x[:80]\<close>, which both tasks evaluate inside a log message: a string is cut to its
  first 80 characters, a scalar of another type is not subscriptable, and neither is
  an object as far as the model goes.
\<close>

fun slice80 :: "pyval \<Rightarrow> error + string" where
  "slice80 (PStr s) = Inr (take 80 s)"
| "slice80 v = Inl TypeError"

section \<open>The tables of \<^verbatim>\<open>shared/models.py\<close>\<close>

text \<open>
  \<^verbatim>\<open>SourceModel\<close>. \<^verbatim>\<open>enabled\<close> is a nullable Boolean column with default True; the
  optional columns are \<open>option\<close>s.
\<close>

record source =
  src_id :: int
  src_collector_id :: int
  src_uid :: string
  src_friendly_name :: "string option"
  src_user_note :: "string option"
  src_enabled :: "bool option"
  src_metadata :: "string option"

text \<open>
  \<^verbatim>\<open>ContentModel\<close>. Its attributes are written through \<^verbatim>\<open>setattr\<close> with a value of
  any type, so each column attribute holds a \<open>pyval\<close>.
\<close>

record content =
  cnt_id :: pyval
  cnt_source_id :: pyval
  cnt_collection_time :: pyval
  cnt_origin_time :: pyval
  cnt_translated :: pyval
  cnt_analysed :: pyval
  cnt_original_text :: pyval
  cnt_translated_text :: pyval
  cnt_content_metadata :: pyval

text \<open>\<^verbatim>\<open>AnalysisRequirementModel\<close>.\<close>

record analysis_requirement =
  rq_id :: int
  rq_source_id :: int
  rq_llm_id :: int
  rq_name :: string
  rq_prompt :: "string option"
  rq_enabled :: "bool option"

text \<open>\<^verbatim>\<open>AnalysisResultModel\<close>.\<close>

record analysis_result =
  res_id :: int
  res_req_id :: int
  res_content_id :: int
  res_analysis_time :: int
  res_output :: string

text \<open>
  An instance of a mapped class has more attributes than the columns declared for it.
  \<^verbatim>\<open>models.py\<close> gives the class \<^verbatim>\<open>__tablename__\<close> and its relationships, and takes
  \<^verbatim>\<open>metadata\<close> from the declarative base; the names are below, with the columns.
  What these read as, what else an instance inherits (\<^verbatim>\<open>__class__\<close>, \<^verbatim>\<open>__dict__\<close>,
  \<^verbatim>\<open>registry\<close> and the like) and what an assignment there does, the ORM and Python
  decide, not the code modelled here, so they are a parameter:
  \<^item> \<open>content_class_value\<close>, \<open>source_class_value\<close>: the value that one of the names
    given by \<^verbatim>\<open>models.py\<close> reads as on an instance. It may depend on other tables,
    as a relationship does.
  \<^item> \<open>content_inherited\<close>, \<open>source_inherited\<close>: the value any other name reads as,
    \<open>None\<close> for a name that is no attribute of the instance.
  \<^item> \<open>content_write_extra\<close>: what assigning a value to an attribute of a content
    instance that is not a column, and committing, comes to: the row as it is stored
    afterwards, or the exception raised.
\<close>

record mapper =
  content_class_value :: "source list \<Rightarrow> analysis_result list \<Rightarrow> content \<Rightarrow> string \<Rightarrow> pyval"
  content_inherited :: "content \<Rightarrow> string \<rightharpoonup> pyval"
  content_write_extra :: "content \<Rightarrow> string \<Rightarrow> pyval \<Rightarrow> error + content"
  source_class_value :: "content list \<Rightarrow> source \<Rightarrow> string \<Rightarrow> pyval"
  source_inherited :: "source \<Rightarrow> string \<rightharpoonup> pyval"

text \<open>
  The record store: each table as the list of its rows in insertion order, the
  auto-increment counter of each table the modelled code inserts into, and the mapped
  classes through which \<^verbatim>\<open>shared/database.py\<close> reaches the rows.
\<close>

record database =
  sources :: "source list"
  contents :: "content list"
  requirements :: "analysis_requirement list"
  results :: "analysis_result list"
  next_source_id :: int
  next_content_id :: int
  next_result_id :: int
  mapped :: mapper

section \<open>\<^verbatim>\<open>shared/database.py\<close>\<close>

text \<open>
  The names of the column attributes of \<^verbatim>\<open>ContentModel\<close> and of \<^verbatim>\<open>SourceModel\<close>,
  and the names of the other attributes that \<^verbatim>\<open>models.py\<close> gives each class.
\<close>

definition content_columns :: "string list" where
  "content_columns =
     [''id'', ''source_id'', ''collection_time'', ''origin_time'', ''translated'',
      ''analysed'', ''original_text'', ''translated_text'', ''content_metadata'']"

definition source_columns :: "string list" where
  "source_columns =
     [''id'', ''collector_id'', ''uid'', ''friendly_name'', ''user_note'', ''enabled'',
      ''source_metadata'']"

definition content_class_attributes :: "string list" where
  "content_class_attributes = [''__tablename__'', ''metadata'', ''source'', ''analysis_results'']"

definition source_class_attributes :: "string list" where
  "source_class_attributes = [''__tablename__'', ''metadata'', ''collector'', ''contents'']"

text \<open>Reading a column attribute of a content row by its name.\<close>

definition content_column :: "content \<Rightarrow> string \<Rightarrow> pyval option" where
  "content_column c n =
     (if n = ''id'' then Some (cnt_id c)
      else if n = ''source_id'' then Some (cnt_source_id c)
      else if n = ''collection_time'' then Some (cnt_collection_time c)
      else if n = ''origin_time'' then Some (cnt_origin_time c)
      else if n = ''translated'' then Some (cnt_translated c)
      else if n = ''analysed'' then Some (cnt_analysed c)
      else if n = ''original_text'' then Some (cnt_original_text c)
      else if n = ''translated_text'' then Some (cnt_translated_text c)
      else if n = ''content_metadata'' then Some (cnt_content_metadata c)
      else None)"

text \<open>
  \<^verbatim>\<open>getattr(content, attribute_name)\<close> on an instance loaded from the database: a
  column attribute, or one of the other attributes of the class, or else what the
  instance inherits under that name; \<open>None\<close> is Python's "no such attribute".
  \<^verbatim>\<open>hasattr\<close> is true where \<^verbatim>\<open>getattr\<close> finds an attribute.
\<close>

definition getattr_content :: "database \<Rightarrow> content \<Rightarrow> string \<Rightarrow> pyval option" where
  "getattr_content db c n =
     (case content_column c n of
        Some v \<Rightarrow> Some v
      | None \<Rightarrow>
          if n \<in> set content_class_attributes
          then Some (content_class_value (mapped db) (sources db) (results db) c n)
          else content_inherited (mapped db) c n)"

definition hasattr_content :: "database \<Rightarrow> content \<Rightarrow> string \<Rightarrow> bool" where
  "hasattr_content db c n = (getattr_content db c n \<noteq> None)"

text \<open>\<^verbatim>\<open>setattr(content, attribute_name, new_value)\<close> at a column attribute.\<close>

definition setattr_content :: "content \<Rightarrow> string \<Rightarrow> pyval \<Rightarrow> content" where
  "setattr_content c n v =
     (if n = ''id'' then c\<lparr>cnt_id := v\<rparr>
      else if n = ''source_id'' then c\<lparr>cnt_source_id := v\<rparr>
      else if n = ''collection_time'' then c\<lparr>cnt_collection_time := v\<rparr>
      else if n = ''origin_time'' then c\<lparr>cnt_origin_time := v\<rparr>
      else if n = ''translated'' then c\<lparr>cnt_translated := v\<rparr>
      else if n = ''analysed'' then c\<lparr>cnt_analysed := v\<rparr>
      else if n = ''original_text'' then c\<lparr>cnt_original_text := v\<rparr>
      else if n = ''translated_text'' then c\<lparr>cnt_translated_text := v\<rparr>
      else if n = ''content_metadata'' then c\<lparr>cnt_content_metadata := v\<rparr>
      else c)"

text \<open>
  Reading a column attribute of a source row by its name, and
  \<^verbatim>\<open>getattr(source, attribute_name)\<close> on an instance loaded from the database.
\<close>

definition opt_str :: "string option \<Rightarrow> pyval" where
  "opt_str s = (case s of None \<Rightarrow> PNone | Some t \<Rightarrow> PStr t)"

definition opt_bool :: "bool option \<Rightarrow> pyval" where
  "opt_bool b = (case b of None \<Rightarrow> PNone | Some t \<Rightarrow> PBool t)"

definition source_column :: "source \<Rightarrow> string \<Rightarrow> pyval option" where
  "source_column s n =
     (if n = ''id'' then Some (PInt (src_id s))
      else if n = ''collector_id'' then Some (PInt (src_collector_id s))
      else if n = ''uid'' then Some (PStr (src_uid s))
      else if n = ''friendly_name'' then Some (opt_str (src_friendly_name s))
      else if n = ''user_note'' then Some (opt_str (src_user_note s))
      else if n = ''enabled'' then Some (opt_bool (src_enabled s))
      else if n = ''source_metadata'' then Some (opt_str (src_metadata s))
      else None)"

definition getattr_source :: "database \<Rightarrow> source \<Rightarrow> string \<Rightarrow> pyval option" where
  "getattr_source db s n =
     (case source_column s n of
        Some v \<Rightarrow> Some v
      | None \<Rightarrow>
          if n \<in> set source_class_attributes
          then Some (source_class_value (mapped db) (contents db) s n)
          else source_inherited (mapped db) s n)"

text \<open>
  \<^verbatim>\<open>session.query(ContentModel).filter_by(id=content_id).first()\<close>: the first row of
  the table whose id is the given one.
\<close>

definition query_content :: "database \<Rightarrow> int \<Rightarrow> content option" where
  "query_content db content_id = find (\<lambda>c. cnt_id c = PInt content_id) (contents db)"

definition query_source :: "database \<Rightarrow> pyval \<Rightarrow> source option" where
  "query_source db source_id = find (\<lambda>s. PInt (src_id s) = source_id) (sources db)"

text \<open>The attribute write reaches the row the query returned: the first match.\<close>

fun update_first :: "('a \<Rightarrow> bool) \<Rightarrow> ('a \<Rightarrow> 'a) \<Rightarrow> 'a list \<Rightarrow> 'a list" where
  "update_first P f [] = []"
| "update_first P f (x # xs) = (if P x then f x # xs else x # update_first P f xs)"

text \<open>
  \<^verbatim>\<open>Database.get_content_attribute\<close>: the attribute, \<^verbatim>\<open>None\<close> when the row has no
  such attribute, \<^verbatim>\<open>ContentNotFoundError\<close> when there is no row.
\<close>

definition get_content_attribute :: "database \<Rightarrow> int \<Rightarrow> string \<Rightarrow> error + pyval" where
  "get_content_attribute db content_id attribute_name =
     (case query_content db content_id of
        Some c \<Rightarrow>
          Inr (case getattr_content db c attribute_name of Some v \<Rightarrow> v | None \<Rightarrow> PNone)
      | None \<Rightarrow> Inl ContentNotFoundError)"

text \<open>
  \<^verbatim>\<open>Database.set_content_attribute\<close>: one session scope that writes the attribute and
  commits. A column attribute takes the value; at another attribute the instance has,
  the mapped class decides. On an exception nothing is stored: the scope rolls back.
  A value that the column of the database cannot hold is outside the model.
\<close>

definition set_content_attribute ::
  "database \<Rightarrow> int \<Rightarrow> string \<Rightarrow> pyval \<Rightarrow> (error + unit) \<times> database" where
  "set_content_attribute db content_id attribute_name new_value =
     (case query_content db content_id of
        Some c \<Rightarrow>
          if hasattr_content db c attribute_name
          then (if attribute_name \<in> set content_columns
                then (Inr (),
                      db\<lparr>contents :=
                           update_first (\<lambda>c. cnt_id c = PInt content_id)
                             (\<lambda>c. setattr_content c attribute_name new_value)
                             (contents db)\<rparr>)
                else (case content_write_extra (mapped db) c attribute_name new_value of
                        Inl err \<Rightarrow> (Inl err, db)
                      | Inr c' \<Rightarrow>
                          (Inr (),
                           db\<lparr>contents :=
                                update_first (\<lambda>c. cnt_id c = PInt content_id)
                                  (\<lambda>c. c') (contents db)\<rparr>)))
          else (Inl AttributeError, db)
      | None \<Rightarrow> (Inl ContentNotFoundError, db))"

text \<open>
  \<^verbatim>\<open>Database.get_source_attribute\<close>; a missing source row raises
  \<^verbatim>\<open>ContentNotFoundError\<close> too.
\<close>

definition get_source_attribute :: "database \<Rightarrow> pyval \<Rightarrow> string \<Rightarrow> error + pyval" where
  "get_source_attribute db source_id attribute_name =
     (case query_source db source_id of
        Some s \<Rightarrow>
          Inr (case getattr_source db s attribute_name of Some v \<Rightarrow> v | None \<Rightarrow> PNone)
      | None \<Rightarrow> Inl ContentNotFoundError)"

text \<open>
  The dict \<^verbatim>\<open>get_analysis_requirements\<close> builds for a requirement: exactly the
  four keys \<^verbatim>\<open>req_id\<close>, \<^verbatim>\<open>name\<close>, \<^verbatim>\<open>llm_id\<close> and \<^verbatim>\<open>prompt\<close>.
\<close>

record requirement_dict =
  req_id :: int
  name :: string
  llm_id :: int
  prompt :: "string option"

definition requirement_entry :: "analysis_requirement \<Rightarrow> requirement_dict" where
  "requirement_entry requirement =
     \<lparr>req_id = rq_id requirement, name = rq_name requirement,
      llm_id = rq_llm_id requirement, prompt = rq_prompt requirement\<rparr>"

text \<open>
  The loop of \<^verbatim>\<open>get_analysis_requirements\<close> over the rows the query returned,
  appending to the list built so far; \<^verbatim>\<open>if requirement.enabled\<close> holds for True
  only (NULL is falsy).
\<close>

fun collect_enabled ::
  "requirement_dict list \<Rightarrow> analysis_requirement list \<Rightarrow> requirement_dict list" where
  "collect_enabled acc [] = acc"
| "collect_enabled acc (requirement # rest) =
     (if rq_enabled requirement = Some True
      then collect_enabled (acc @ [requirement_entry requirement]) rest
      else collect_enabled acc rest)"

definition get_analysis_requirements ::
  "database \<Rightarrow> pyval \<Rightarrow> error + requirement_dict list" where
  "get_analysis_requirements db source_id =
     Inr (collect_enabled []
            (filter (\<lambda>r. PInt (rq_source_id r) = source_id) (requirements db)))"

text \<open>
  \<^verbatim>\<open>Database.save_analysis_result\<close>: appends one row under the next id of the table
  and returns that id. \<open>now\<close> is the clock value the column default of
  \<^verbatim>\<open>analysis_time\<close> reads.
\<close>

definition save_analysis_result ::
  "database \<Rightarrow> int \<Rightarrow> int \<Rightarrow> int \<Rightarrow> string \<Rightarrow> int \<times> database" where
  "save_analysis_result db now content_id rid output =
     (next_result_id db,
      db\<lparr>results := results db @
            [\<lparr>res_id = next_result_id db, res_req_id = rid, res_content_id = content_id,
              res_analysis_time = now, res_output = output\<rparr>],
         next_result_id := next_result_id db + 1\<rparr>)"

section \<open>The service registries and the task queue\<close>

text \<open>
  A translation provider is its \<^verbatim>\<open>translate(text)\<close>, an analysis provider its
  \<^verbatim>\<open>analyse(prompt, content_text)\<close>: each returns a value or raises. The providers under
  \<^verbatim>\<open>services/\<close> call an external API, so they are parameters here.
\<close>

type_synonym translation_service = "pyval \<Rightarrow> error + pyval"

type_synonym analysis_service = "string option \<Rightarrow> pyval \<Rightarrow> error + pyval"

text \<open>
  What a worker process finds around it: whether \<^verbatim>\<open>connect_db\<close> succeeds, whether
  loading the service modules fails (\<open>Some e\<close>, with \<open>e\<close> the exception that
  leaves the handler around the loading) or not, the two registries
  \<^verbatim>\<open>TranslationService._registry\<close> and \<^verbatim>\<open>AnalysisService._registry\<close> as the loaded
  modules left them, and the clock that the column defaults read during the run.
\<close>

record env =
  db_connects :: bool
  services_load :: "error option"
  translation_registry :: "string \<rightharpoonup> translation_service"
  analysis_registry :: "string \<rightharpoonup> analysis_service"
  utcnow :: int

text \<open>\<^verbatim>\<open>app.send_task(name, args=[content_id], queue=...)\<close> appends a task to the broker.\<close>

record task =
  task_name :: string
  task_arg :: int
  task_queue :: string

definition send_task :: "task list \<Rightarrow> string \<Rightarrow> int \<Rightarrow> string \<Rightarrow> task list" where
  "send_task q n content_id qn = q @ [\<lparr>task_name = n, task_arg = content_id, task_queue = qn\<rparr>]"

text \<open>
  What the queue sees of a task run: both tasks re-raise an exception "to Celery, which can
  handle/record it", so a run has failed for the queue when it raised, and a run that
  returns a value, whichever, has completed.
\<close>

definition task_failed :: "error + pyval \<Rightarrow> bool" where
  "task_failed out = (case out of Inl err \<Rightarrow> True | Inr v \<Rightarrow> False)"

section \<open>\<^verbatim>\<open>workers/tasks/translate.py\<close>\<close>

text \<open>
  \<^verbatim>\<open>translate_content\<close>. The outcome is the returned value or the exception the task
  re-raises to the queue; the database and the broker are passed through.
  \<^verbatim>\<open>TranslationService.get_service('gpt3.5')()\<close> calls \<^verbatim>\<open>None\<close> when the identifier
  is not registered, a \<^verbatim>\<open>TypeError\<close>.
\<close>

definition translate_content ::
  "env \<Rightarrow> database \<Rightarrow> task list \<Rightarrow> int \<Rightarrow> (error + pyval) \<times> database \<times> task list" where
  "translate_content e db q content_id =
     (if \<not> db_connects e then (Inl DatabaseConnectionError, db, q)
      else case get_content_attribute db content_id ''original_text'' of
        Inl err \<Rightarrow> (Inl err, db, q)
      | Inr original_text \<Rightarrow>
         (case slice80 original_text of
            Inl err \<Rightarrow> (Inl err, db, q)
          | Inr _ \<Rightarrow>
             (case services_load e of
                Some err \<Rightarrow> (Inl err, db, q)
              | None \<Rightarrow>
                 (case translation_registry e ''gpt3.5'' of
                    None \<Rightarrow> (Inl TypeError, db, q)
                  | Some service \<Rightarrow>
                     (case service original_text of
                        Inl err \<Rightarrow> (Inl err, db, q)
                      | Inr translated_text \<Rightarrow>
                         if \<not> truthy translated_text then (Inr (PBool False), db, q)
                         else (case slice80 translated_text of
                                 Inl err \<Rightarrow> (Inl err, db, q)
                               | Inr _ \<Rightarrow>
                                  (case set_content_attribute db content_id
                                          ''translated_text'' translated_text of
                                     (Inl err, db') \<Rightarrow> (Inl err, db', q)
                                   | (Inr _, db') \<Rightarrow>
                                       (Inr (PBool True), db',
                                        send_task q ''analyse_content'' content_id
                                          ''analysis''))))))))"

section \<open>\<^verbatim>\<open>workers/tasks/analyse.py\<close>\<close>

text \<open>
  The loop of \<^verbatim>\<open>analyse_content\<close> over the requirement dicts. \<open>None\<close> is the loop
  running to its end; \<open>Some\<close> is the early exit: \<^verbatim>\<open>return False\<close> when the service
  identifier is not registered, or the exception of the provider or of the log line
  that slices the analysis. Rows saved before an early exit stay saved.
\<close>

fun process_requirements ::
  "env \<Rightarrow> int \<Rightarrow> pyval \<Rightarrow> requirement_dict list \<Rightarrow> database \<Rightarrow>
     (error + pyval) option \<times> database" where
  "process_requirements e content_id translated_text [] db = (None, db)"
| "process_requirements e content_id translated_text (requirement # rest) db =
     (case analysis_registry e ''gpt3.5'' of
        None \<Rightarrow> (Some (Inr (PBool False)), db)
      | Some service \<Rightarrow>
         (case service (prompt requirement) translated_text of
            Inl err \<Rightarrow> (Some (Inl err), db)
          | Inr analysis \<Rightarrow>
             (case analysis of
                PStr s \<Rightarrow>
                  process_requirements e content_id translated_text rest
                    (snd (save_analysis_result db (utcnow e) content_id
                            (req_id requirement) s))
              | _ \<Rightarrow> (Some (Inl TypeError), db))))"

text \<open>
  \<^verbatim>\<open>analyse_content\<close>. A failed \<^verbatim>\<open>connect_db\<close> reaches
  \<^verbatim>\<open>except database.DatabaseConnectionError\<close>, where \<^verbatim>\<open>database\<close> is the
  \<^verbatim>\<open>Database\<close> instance, which has no such attribute: the task raises
  \<^verbatim>\<open>AttributeError\<close>. A source that is not enabled ends the task with \<^verbatim>\<open>return None\<close>.
\<close>

definition analyse_content :: "env \<Rightarrow> database \<Rightarrow> int \<Rightarrow> (error + pyval) \<times> database" where
  "analyse_content e db content_id =
     (if \<not> db_connects e then (Inl AttributeError, db)
      else case services_load e of
        Some err \<Rightarrow> (Inl err, db)
      | None \<Rightarrow>
         (case get_content_attribute db content_id ''translated_text'' of
            Inl err \<Rightarrow> (Inl err, db)
          | Inr translated_text \<Rightarrow>
             (case get_content_attribute db content_id ''source_id'' of
                Inl err \<Rightarrow> (Inl err, db)
              | Inr source_id \<Rightarrow>
                 (case get_source_attribute db source_id ''enabled'' of
                    Inl err \<Rightarrow> (Inl err, db)
                  | Inr source_enabled \<Rightarrow>
                     if \<not> truthy source_enabled then (Inr PNone, db)
                     else (case get_analysis_requirements db source_id of
                             Inl err \<Rightarrow> (Inl err, db)
                           | Inr reqs \<Rightarrow>
                              (case process_requirements e content_id translated_text
                                      reqs db of
                                 (Some out, db') \<Rightarrow> (out, db')
                               | (None, db') \<Rightarrow> (Inr (PBool True), db')))))))"

section \<open>\<^verbatim>\<open>collection/collector.py\<close> and \<^verbatim>\<open>collection/telegram.py\<close>\<close>

text \<open>
  A collector after \<^verbatim>\<open>__init__\<close>: its names and the id of its row in the collector
  table.
\<close>

record collector =
  short_name :: string
  long_name :: string
  collector_id :: int

definition query_source_uid :: "database \<Rightarrow> string \<Rightarrow> int \<Rightarrow> source option" where
  "query_source_uid db uid cid =
     find (\<lambda>s. src_uid s = uid \<and> src_collector_id s = cid) (sources db)"

text \<open>
  What \<^verbatim>\<open>add_source\<close> hands back for a new source: the \<^verbatim>\<open>SourceModel\<close> instance it
  inserted, returned from inside the session scope. When the caller gets it the scope
  has committed, which expires the instance, and closed its session, which detaches
  it. It is an object, not \<^verbatim>\<open>None\<close>, and reading a column attribute of it raises
  \<^verbatim>\<open>DetachedInstanceError\<close>.
\<close>

datatype source_instance = Detached

definition read_column :: "source_instance \<Rightarrow> string \<Rightarrow> error + pyval" where
  "read_column inst n = (case inst of Detached \<Rightarrow> Inl DetachedInstanceError)"

text \<open>
  \<^verbatim>\<open>Collector.add_source\<close>: inserts the row and returns its instance when the source
  is new, returns \<^verbatim>\<open>None\<close> when the source exists already.
\<close>

definition add_source ::
  "collector \<Rightarrow> database \<Rightarrow> string \<Rightarrow> string \<Rightarrow> source_instance option \<times> database" where
  "add_source col db uid friendly_name =
     (case query_source_uid db uid (collector_id col) of
        None \<Rightarrow>
          (let new_source =
                 \<lparr>src_id = next_source_id db, src_collector_id = collector_id col,
                  src_uid = uid, src_friendly_name = Some friendly_name,
                  src_user_note = None, src_enabled = Some True, src_metadata = None\<rparr>
           in (Some Detached,
               db\<lparr>sources := sources db @ [new_source],
                  next_source_id := next_source_id db + 1\<rparr>))
      | Some existing_source \<Rightarrow> (None, db))"

text \<open>
  \<^verbatim>\<open>Collector.add_content\<close>: the id of the new row, \<^verbatim>\<open>None\<close> when the source is not
  known. The text is stored as it comes. The keyword \<^verbatim>\<open>metadata\<close> is not the name of
  a column attribute (that is \<^verbatim>\<open>content_metadata\<close>), so the column keeps its NULL;
  \<^verbatim>\<open>translated\<close> and \<^verbatim>\<open>analysed\<close> take their default False, \<^verbatim>\<open>collection_time\<close>
  the clock value \<open>now\<close>.
\<close>

definition add_content ::
  "collector \<Rightarrow> database \<Rightarrow> int \<Rightarrow> string \<Rightarrow> pyval \<Rightarrow> pyval \<Rightarrow> (string \<times> string) list \<Rightarrow>
     int option \<times> database" where
  "add_content col db now source_uid origin_time text' metadata =
     (case query_source_uid db source_uid (collector_id col) of
        None \<Rightarrow> (None, db)
      | Some src \<Rightarrow>
          (Some (next_content_id db),
           db\<lparr>contents := contents db @
                 [\<lparr>cnt_id = PInt (next_content_id db), cnt_source_id = PInt (src_id src),
                   cnt_collection_time = PDatetime now, cnt_origin_time = origin_time,
                   cnt_translated = PBool False, cnt_analysed = PBool False,
                   cnt_original_text = text', cnt_translated_text = PNone,
                   cnt_content_metadata = PNone\<rparr>],
              next_content_id := next_content_id db + 1\<rparr>))"

text \<open>
  The part of a Telegram event \<^verbatim>\<open>process_message\<close> reads: \<^verbatim>\<open>str(sender.id)\<close>
  (\<open>None\<close> when the event has no sender) and the message with its text and date.
\<close>

record message =
  msg_text :: "string option"
  msg_date :: pyval

record event =
  ev_sender :: "string option"
  ev_message :: "message option"

text \<open>
  \<^verbatim>\<open>TelegramCollector.process_message\<close>: content is added only for a message with
  text, and a translation task is sent only for a truthy content id.
\<close>

definition process_message ::
  "collector \<Rightarrow> database \<Rightarrow> task list \<Rightarrow> int \<Rightarrow> event \<Rightarrow>
     (error + unit) \<times> database \<times> task list" where
  "process_message col db q now ev =
     (case ev_message ev of
        None \<Rightarrow> (Inr (), db, q)
      | Some m \<Rightarrow>
         (case msg_text m of
            None \<Rightarrow> (Inr (), db, q)
          | Some t \<Rightarrow>
             if length t \<noteq> 0
             then (case ev_sender ev of
                     None \<Rightarrow> (Inl AttributeError, db, q)
                   | Some sender_id \<Rightarrow>
                      (case add_content col db now sender_id (msg_date m) (PStr t) [] of
                         (Some content_id, db') \<Rightarrow>
                           if content_id \<noteq> 0
                           then (Inr (), db',
                                 send_task q ''translate_content'' content_id
                                   ''translation'')
                           else (Inr (), db', q)
                       | (None, db') \<Rightarrow> (Inr (), db', q)))
             else (Inr (), db, q)))"

section \<open>The specification's vocabulary\<close>

text \<open>
  The enabled requirements of a source, in the words of the specification: the rows of
  the requirement table that belong to the source and whose \<^verbatim>\<open>enabled\<close> flag is true.
\<close>

definition enabled_requirements :: "database \<Rightarrow> pyval \<Rightarrow> analysis_requirement list" where
  "enabled_requirements db source_id =
     filter (\<lambda>r. PInt (rq_source_id r) = source_id \<and> rq_enabled r = Some True)
       (requirements db)"

text \<open>
  The foreign key of the requirement table: the source of every requirement row is a
  row of the source table.
\<close>

definition requirement_sources_exist :: "database \<Rightarrow> bool" where
  "requirement_sources_exist db =
     list_all (\<lambda>r. query_source db (PInt (rq_source_id r)) \<noteq> None) (requirements db)"

text \<open>The rows of the source table registered under a pair of collector id and uid.\<close>

definition registered :: "database \<Rightarrow> int \<Rightarrow> string \<Rightarrow> source list" where
  "registered db cid uid =
     filter (\<lambda>s. src_uid s = uid \<and> src_collector_id s = cid) (sources db)"

section \<open>The end-to-end scenario of the specification\<close>

text \<open>
  Collector 1 with the source \<^verbatim>\<open>chan-42\<close> (id 7), content 101 with the text
  \<^verbatim>\<open>Bonjour le monde\<close>, one enabled requirement (id 5) and stub providers.
\<close>

definition ex_collector :: collector where
  "ex_collector = \<lparr>short_name = ''telegram'', long_name = ''Telegram Channel Monitor'',
                    collector_id = 1\<rparr>"

definition ex_source :: source where
  "ex_source = \<lparr>src_id = 7, src_collector_id = 1, src_uid = ''chan-42'',
                 src_friendly_name = Some ''News Channel'', src_user_note = None,
                 src_enabled = Some True, src_metadata = None\<rparr>"

definition ex_content :: content where
  "ex_content = \<lparr>cnt_id = PInt 101, cnt_source_id = PInt 7,
                  cnt_collection_time = PDatetime 0, cnt_origin_time = PDatetime 0,
                  cnt_translated = PBool False, cnt_analysed = PBool False,
                  cnt_original_text = PStr ''Bonjour le monde'', cnt_translated_text = PNone,
                  cnt_content_metadata = PNone\<rparr>"

definition ex_requirement :: analysis_requirement where
  "ex_requirement = \<lparr>rq_id = 5, rq_source_id = 7, rq_llm_id = 1, rq_name = ''mood'',
                      rq_prompt = Some ''sentiment'', rq_enabled = Some True\<rparr>"

text \<open>
  The mapped classes of the scenario. On a content instance \<^verbatim>\<open>__tablename__\<close> reads
  as the table name, \<^verbatim>\<open>metadata\<close> and \<^verbatim>\<open>source\<close> as objects,
  \<^verbatim>\<open>analysis_results\<close> as a list that is empty or not with the result table, and
  the one inherited attribute looked at is \<^verbatim>\<open>__class__\<close>; likewise on a source
  instance. Assigning to \<^verbatim>\<open>metadata\<close> or \<^verbatim>\<open>__tablename__\<close> sets a plain attribute
  of the instance and stores nothing; assigning a scalar to one of the others raises.
\<close>

definition ex_content_class_value ::
  "source list \<Rightarrow> analysis_result list \<Rightarrow> content \<Rightarrow> string \<Rightarrow> pyval" where
  "ex_content_class_value srcs ress c n =
     (if n = ''__tablename__'' then PStr ''content''
      else if n = ''metadata'' then PObject ''MetaData'' True
      else if n = ''source'' then PObject ''SourceModel'' True
      else PObject ''InstrumentedList''
             (filter (\<lambda>r. PInt (res_content_id r) = cnt_id c) ress \<noteq> []))"

definition ex_content_inherited :: "content \<Rightarrow> string \<rightharpoonup> pyval" where
  "ex_content_inherited c = [''__class__'' \<mapsto> PObject ''ContentModel'' True]"

definition ex_content_write_extra :: "content \<Rightarrow> string \<Rightarrow> pyval \<Rightarrow> error + content" where
  "ex_content_write_extra c n v =
     (if n = ''metadata'' \<or> n = ''__tablename__'' then Inr c
      else Inl (OtherError ''not assignable''))"

definition ex_source_class_value :: "content list \<Rightarrow> source \<Rightarrow> string \<Rightarrow> pyval" where
  "ex_source_class_value cnts s n =
     (if n = ''__tablename__'' then PStr ''source''
      else if n = ''metadata'' then PObject ''MetaData'' True
      else if n = ''collector'' then PObject ''CollectorModel'' True
      else PObject ''InstrumentedList''
             (filter (\<lambda>c. cnt_source_id c = PInt (src_id s)) cnts \<noteq> []))"

definition ex_source_inherited :: "source \<Rightarrow> string \<rightharpoonup> pyval" where
  "ex_source_inherited s = [''__class__'' \<mapsto> PObject ''SourceModel'' True]"

definition ex_mapper :: mapper where
  "ex_mapper = \<lparr>content_class_value = ex_content_class_value,
                 content_inherited = ex_content_inherited,
                 content_write_extra = ex_content_write_extra,
                 source_class_value = ex_source_class_value,
                 source_inherited = ex_source_inherited\<rparr>"

definition ex_db :: database where
  "ex_db = \<lparr>sources = [ex_source], contents = [ex_content],
             requirements = [ex_requirement], results = [],
             next_source_id = 8, next_content_id = 102, next_result_id = 1,
             mapped = ex_mapper\<rparr>"

definition ex_translate :: translation_service where
  "ex_translate t =
     (if t = PStr ''Bonjour le monde'' then Inr (PStr ''Hello world'') else Inr PNone)"

definition ex_analyse :: analysis_service where
  "ex_analyse p t = Inr (PStr ''neutral'')"

definition ex_env :: env where
  "ex_env = \<lparr>db_connects = True, services_load = None,
              translation_registry = [''gpt3.5'' \<mapsto> ex_translate],
              analysis_registry = [''gpt3.5'' \<mapsto> ex_analyse], utcnow = 0\<rparr>"

text \<open>The scenario after the translation stage.\<close>

definition ex_translated_db :: database where
  "ex_translated_db =
     ex_db\<lparr>contents := [ex_content\<lparr>cnt_translated_text := PStr ''Hello world''\<rparr>]\<rparr>"

definition ex_analyse_task :: task where
  "ex_analyse_task =
     \<lparr>task_name = ''analyse_content'', task_arg = 101, task_queue = ''analysis''\<rparr>"

text \<open>The scenario after the analysis stage.\<close>

definition ex_result :: analysis_result where
  "ex_result = \<lparr>res_id = 1, res_req_id = 5, res_content_id = 101, res_analysis_time = 0,
                 res_output = ''neutral''\<rparr>"

definition ex_analysed_db :: database where
  "ex_analysed_db = ex_translated_db\<lparr>results := [ex_result], next_result_id := 2\<rparr>"

text \<open>A translation provider that returns no text, and the worker that finds it.\<close>

definition ex_silent_translate :: translation_service where
  "ex_silent_translate t = Inr PNone"

definition ex_silent_env :: env where
  "ex_silent_env = ex_env\<lparr>translation_registry := [''gpt3.5'' \<mapsto> ex_silent_translate]\<rparr>"

text \<open>A translation provider that raises, and the worker that finds it.\<close>

definition ex_failing_translate :: translation_service where
  "ex_failing_translate t = Inl (OtherError ''rate limit'')"

definition ex_failing_env :: env where
  "ex_failing_env = ex_env\<lparr>translation_registry := [''gpt3.5'' \<mapsto> ex_failing_translate]\<rparr>"

text \<open>A worker whose provider modules fail to load.\<close>

definition ex_unloaded_env :: env where
  "ex_unloaded_env = ex_env\<lparr>services_load := Some (OtherError ''import'')\<rparr>"

text \<open>
  A worker that has a second analysis provider registered, under \<^verbatim>\<open>gpt4\<close>, and the
  dict of requirement 5 as it is and as it would be declared for another model.
\<close>

definition ex_other_analyse :: analysis_service where
  "ex_other_analyse p t = Inr (PStr ''positive'')"

definition ex_two_env :: env where
  "ex_two_env =
     ex_env\<lparr>analysis_registry := [''gpt3.5'' \<mapsto> ex_analyse, ''gpt4'' \<mapsto> ex_other_analyse]\<rparr>"

text \<open>An analysis provider that raises, and the worker that finds it.\<close>

definition ex_raising_analyse :: analysis_service where
  "ex_raising_analyse p t = Inl AnalysisException"

definition ex_raising_env :: env where
  "ex_raising_env = ex_env\<lparr>analysis_registry := [''gpt3.5'' \<mapsto> ex_raising_analyse]\<rparr>"

text \<open>A worker with no analysis provider registered.\<close>

definition ex_bare_env :: env where
  "ex_bare_env = ex_env\<lparr>analysis_registry := Map.empty\<rparr>"

definition ex_dict :: requirement_dict where
  "ex_dict = \<lparr>req_id = 5, name = ''mood'', llm_id = 1, prompt = Some ''sentiment''\<rparr>"

definition ex_dict_other_model :: requirement_dict where
  "ex_dict_other_model = ex_dict\<lparr>llm_id := 2\<rparr>"

text \<open>
  The translated scenario with two more requirements for source 7: one switched off,
  and an enabled one declared for another model.
\<close>

definition ex_requirement_off :: analysis_requirement where
  "ex_requirement_off = \<lparr>rq_id = 6, rq_source_id = 7, rq_llm_id = 1, rq_name = ''people'',
                          rq_prompt = Some ''who is named'', rq_enabled = Some False\<rparr>"

definition ex_requirement_topic :: analysis_requirement where
  "ex_requirement_topic = \<lparr>rq_id = 8, rq_source_id = 7, rq_llm_id = 2, rq_name = ''topic'',
                            rq_prompt = Some ''main topic'', rq_enabled = Some True\<rparr>"

definition ex_mixed_db :: database where
  "ex_mixed_db =
     ex_translated_db\<lparr>requirements :=
       [ex_requirement, ex_requirement_off, ex_requirement_topic]\<rparr>"

definition ex_dict_topic :: requirement_dict where
  "ex_dict_topic = \<lparr>req_id = 8, name = ''topic'', llm_id = 2, prompt = Some ''main topic''\<rparr>"

text \<open>The translated scenario with the source switched off.\<close>

definition ex_disabled_db :: database where
  "ex_disabled_db = ex_translated_db\<lparr>sources := [ex_source\<lparr>src_enabled := Some False\<rparr>]\<rparr>"

text \<open>A message of the channel with text, one with empty text, and the tasks they cause.\<close>

definition ex_event :: event where
  "ex_event = \<lparr>ev_sender = Some ''chan-42'',
                ev_message = Some \<lparr>msg_text = Some ''Bonjour'', msg_date = PDatetime 0\<rparr>\<rparr>"

definition ex_empty_event :: event where
  "ex_empty_event = \<lparr>ev_sender = Some ''chan-42'',
                      ev_message = Some \<lparr>msg_text = Some [], msg_date = PDatetime 0\<rparr>\<rparr>"

definition ex_translate_task :: task where
  "ex_translate_task =
     \<lparr>task_name = ''translate_content'', task_arg = 102, task_queue = ''translation''\<rparr>"

section \<open>Evaluating the scenario\<close>

lemmas ex_defs =
  ex_collector_def ex_source_def ex_content_def ex_requirement_def ex_db_def
  ex_translate_def ex_analyse_def ex_env_def ex_translated_db_def ex_analyse_task_def
  ex_result_def ex_analysed_db_def ex_silent_translate_def ex_silent_env_def
  ex_failing_translate_def ex_failing_env_def ex_unloaded_env_def ex_other_analyse_def
  ex_two_env_def ex_bare_env_def ex_raising_analyse_def
  ex_raising_env_def ex_dict_def ex_dict_other_model_def ex_requirement_off_def
  ex_requirement_topic_def ex_mixed_db_def ex_dict_topic_def ex_disabled_db_def ex_event_def
  ex_empty_event_def ex_translate_task_def

lemmas ex_mapper_defs =
  ex_mapper_def ex_content_class_value_def ex_content_inherited_def
  ex_content_write_extra_def ex_source_class_value_def ex_source_inherited_def
  content_class_attributes_def source_class_attributes_def

lemmas db_defs =
  get_content_attribute_def set_content_attribute_def get_source_attribute_def
  get_analysis_requirements_def save_analysis_result_def query_content_def
  query_source_def query_source_uid_def getattr_content_def hasattr_content_def
  setattr_content_def getattr_source_def content_column_def source_column_def
  content_columns_def opt_str_def opt_bool_def requirement_entry_def send_task_def

lemma ex_translate_run:
  "translate_content ex_env ex_db [] 101 = (Inr (PBool True), ex_translated_db, [ex_analyse_task])"
  by (simp add: translate_content_def ex_defs db_defs)

lemma ex_silent_run:
  "translate_content ex_silent_env ex_db [] 101 = (Inr (PBool False), ex_db, [])"
  by (simp add: translate_content_def ex_defs db_defs)

lemma ex_analyse_run:
  "analyse_content ex_env ex_translated_db 101 = (Inr (PBool True), ex_analysed_db)"
  by (simp add: analyse_content_def ex_defs db_defs)

lemma ex_disabled_run:
  "analyse_content ex_env ex_disabled_db 101 = (Inr PNone, ex_disabled_db)"
  by (simp add: analyse_content_def ex_defs db_defs)

text \<open>
  In the scenario \<^verbatim>\<open>metadata\<close> is an attribute of a content instance though not a
  column: it reads as an object, and assigning to it raises nothing and stores nothing.
\<close>

lemma ex_metadata_attribute:
  "get_content_attribute ex_db 101 ''metadata'' = Inr (PObject ''MetaData'' True) \<and>
   set_content_attribute ex_db 101 ''metadata'' (PStr ''x'') = (Inr (), ex_db)"
  by (simp add: ex_defs db_defs ex_mapper_defs)

section \<open>The record store\<close>

lemma find_update_first:
  "(\<And>x. P x \<Longrightarrow> P (f x)) \<Longrightarrow> find P (update_first P f xs) = map_option f (find P xs)"
  by (induction xs) simp_all

lemma content_column_iff: "content_column c n = None \<longleftrightarrow> n \<notin> set content_columns"
  by (simp add: content_column_def content_columns_def)

text \<open>
  Whatever the mapped classes read as, a content instance has the attributes that
  \<^verbatim>\<open>models.py\<close> gives its class beyond the columns, \<^verbatim>\<open>metadata\<close> and the
  relationships among them.
\<close>

lemma content_class_attribute_present:
  assumes "query_content db cid = Some c" and "n \<in> set content_class_attributes"
  shows "hasattr_content db c n \<and>
         get_content_attribute db cid n =
           Inr (content_class_value (mapped db) (sources db) (results db) c n)"
proof -
  from assms(2) have "n \<notin> set content_columns"
    by (auto simp: content_class_attributes_def content_columns_def)
  then have "content_column c n = None" by (simp add: content_column_iff)
  with assms show ?thesis
    by (simp add: hasattr_content_def getattr_content_def get_content_attribute_def)
qed

lemma get_content_column:
  "query_content db cid = Some c \<Longrightarrow> content_column c n = Some x \<Longrightarrow>
     get_content_attribute db cid n = Inr x"
  by (simp add: get_content_attribute_def getattr_content_def)

lemma cnt_id_setattr_translated_text:
  "cnt_id (setattr_content c ''translated_text'' v) = cnt_id c"
  by (simp add: setattr_content_def)

lemma content_column_setattr_translated_text:
  "content_column (setattr_content c ''translated_text'' v) n =
     (if n = ''translated_text'' then Some v else content_column c n)"
  by (simp add: setattr_content_def content_column_def)

lemma set_translated_text:
  "set_content_attribute db cid ''translated_text'' v =
     (case query_content db cid of
        Some c \<Rightarrow>
          (Inr (), db\<lparr>contents := update_first (\<lambda>c. cnt_id c = PInt cid)
                          (\<lambda>c. setattr_content c ''translated_text'' v) (contents db)\<rparr>)
      | None \<Rightarrow> (Inl ContentNotFoundError, db))"
  by (simp add: set_content_attribute_def hasattr_content_def getattr_content_def
      content_column_def content_columns_def split: option.splits)

lemma get_after_set_translated_text:
  assumes "set_content_attribute db cid ''translated_text'' v = (Inr u, db')"
    and "n \<in> set content_columns"
  shows "get_content_attribute db' cid n =
           (if n = ''translated_text'' then Inr v else get_content_attribute db cid n)"
proof -
  from assms(1) obtain c where
    c: "query_content db cid = Some c" and
    db': "db' = db\<lparr>contents := update_first (\<lambda>c. cnt_id c = PInt cid)
                    (\<lambda>c. setattr_content c ''translated_text'' v) (contents db)\<rparr>"
    by (cases "query_content db cid") (simp_all add: set_translated_text)
  have q: "query_content db' cid = Some (setattr_content c ''translated_text'' v)"
    using c unfolding db' query_content_def
    by (simp add: find_update_first cnt_id_setattr_translated_text)
  from assms(2) obtain x where x: "content_column c n = Some x"
    using content_column_iff [of c n] by (cases "content_column c n") simp_all
  show ?thesis
  proof (cases "n = ''translated_text''")
    case True
    then have "content_column (setattr_content c ''translated_text'' v) n = Some v"
      by (simp add: content_column_setattr_translated_text)
    with q True show ?thesis by (simp add: get_content_column)
  next
    case False
    then have "content_column (setattr_content c ''translated_text'' v) n = Some x"
      using x by (simp add: content_column_setattr_translated_text)
    with q c x False show ?thesis by (simp add: get_content_column)
  qed
qed

section \<open>The translation stage\<close>

lemma slice80_Inr: "slice80 v = Inr t \<Longrightarrow> \<exists>s. v = PStr s"
  by (cases v) simp_all

lemma translate_content_success:
  assumes "translate_content e db q cid = (Inr (PBool True), db', q')"
  shows "\<exists>service original s.
           translation_registry e ''gpt3.5'' = Some service \<and>
           get_content_attribute db cid ''original_text'' = Inr original \<and>
           service original = Inr (PStr s) \<and> s \<noteq> [] \<and>
           set_content_attribute db cid ''translated_text'' (PStr s) = (Inr (), db') \<and>
           q' = send_task q ''analyse_content'' cid ''analysis''"
proof -
  note a = assms [unfolded translate_content_def]
  have c1: "db_connects e" using a by (cases "db_connects e") simp_all
  obtain original where c2: "get_content_attribute db cid ''original_text'' = Inr original"
    using a c1 by (cases "get_content_attribute db cid ''original_text''") simp_all
  obtain t0 where c3: "slice80 original = Inr t0"
    using a c1 c2 by (cases "slice80 original") simp_all
  have c4: "services_load e = None"
    using a c1 c2 c3 by (cases "services_load e") simp_all
  obtain service where c5: "translation_registry e ''gpt3.5'' = Some service"
    using a c1 c2 c3 c4 by (cases "translation_registry e ''gpt3.5''") simp_all
  obtain v where c6: "service original = Inr v"
    using a c1 c2 c3 c4 c5 by (cases "service original") simp_all
  have c7: "truthy v"
    using a c1 c2 c3 c4 c5 c6 by (cases "truthy v") simp_all
  obtain t1 where c8: "slice80 v = Inr t1"
    using a c1 c2 c3 c4 c5 c6 c7 by (cases "slice80 v") simp_all
  then obtain s where s: "v = PStr s" by (auto dest: slice80_Inr)
  with c7 have ne: "s \<noteq> []" by simp
  obtain r db1 where c9: "set_content_attribute db cid ''translated_text'' v = (r, db1)"
    by (cases "set_content_attribute db cid ''translated_text'' v")
  have "r = Inr () \<and> db' = db1 \<and> q' = send_task q ''analyse_content'' cid ''analysis''"
    using a c1 c2 c3 c4 c5 c6 c7 c8 c9 by (cases r) simp_all
  with c2 c5 c6 c9 s ne show ?thesis by auto
qed

text \<open>
  Claim C1 as stated fails in the scenario: the translation task returns True, and the
  \<^verbatim>\<open>translated\<close> flag of content 101 is still False afterwards. The task writes
  \<^verbatim>\<open>translated_text\<close> only.
\<close>

theorem translate_content_translated_flag_counterexample:
  "fst (translate_content ex_env ex_db [] 101) = Inr (PBool True) \<and>
   get_content_attribute (fst (snd (translate_content ex_env ex_db [] 101))) 101 ''translated''
     = Inr (PBool False)"
  by (simp add: ex_translate_run) (simp add: ex_defs db_defs)

text \<open>
  Claim C1, amended: whenever \<^verbatim>\<open>translate_content\<close> returns True, the registered
  provider returned a non-empty string for the original text, the new database is the
  old one after the single update \<^verbatim>\<open>set_content_attribute(content_id, 'translated_text',
  ...)\<close> with that string, so \<^verbatim>\<open>translated_text\<close> reads back as the provider's text
  (non-null), the \<^verbatim>\<open>translated\<close> flag reads as before the run, and exactly one
  \<^verbatim>\<open>analyse_content\<close> task for the same content id has been appended to the queue.
\<close>

theorem translate_content_persists_text:
  assumes "translate_content e db q cid = (Inr (PBool True), db', q')"
  shows "\<exists>service original s.
           translation_registry e ''gpt3.5'' = Some service \<and>
           get_content_attribute db cid ''original_text'' = Inr original \<and>
           service original = Inr (PStr s) \<and> s \<noteq> [] \<and>
           set_content_attribute db cid ''translated_text'' (PStr s) = (Inr (), db') \<and>
           get_content_attribute db' cid ''translated_text'' = Inr (PStr s) \<and>
           get_content_attribute db' cid ''translated'' =
             get_content_attribute db cid ''translated'' \<and>
           q' = q @ [\<lparr>task_name = ''analyse_content'', task_arg = cid,
                      task_queue = ''analysis''\<rparr>]"
proof -
  from translate_content_success [OF assms] obtain service original s where
    h: "translation_registry e ''gpt3.5'' = Some service"
       "get_content_attribute db cid ''original_text'' = Inr original"
       "service original = Inr (PStr s)" "s \<noteq> []"
       "set_content_attribute db cid ''translated_text'' (PStr s) = (Inr (), db')"
       "q' = send_task q ''analyse_content'' cid ''analysis''"
    by blast
  have "get_content_attribute db' cid ''translated_text'' = Inr (PStr s)"
    by (simp add: get_after_set_translated_text [OF h(5)] content_columns_def)
  moreover have "get_content_attribute db' cid ''translated'' =
      get_content_attribute db cid ''translated''"
    by (simp add: get_after_set_translated_text [OF h(5)] content_columns_def)
  ultimately show ?thesis using h by (auto simp: send_task_def)
qed

text \<open>The scenario satisfies the hypothesis: translating content 101.\<close>

theorem translate_content_persists_text_witness:
  "translate_content ex_env ex_db [] 101 = (Inr (PBool True), ex_translated_db, [ex_analyse_task]) \<and>
   get_content_attribute ex_translated_db 101 ''translated_text'' = Inr (PStr ''Hello world'') \<and>
   get_content_attribute ex_translated_db 101 ''translated'' = Inr (PBool False)"
proof -
  have run: "translate_content ex_env ex_db [] 101 =
      (Inr (PBool True), ex_translated_db, [ex_analyse_task])"
    by (rule ex_translate_run)
  from translate_content_persists_text [OF run] obtain service original s where
    h: "translation_registry ex_env ''gpt3.5'' = Some service"
       "get_content_attribute ex_db 101 ''original_text'' = Inr original"
       "service original = Inr (PStr s)"
       "get_content_attribute ex_translated_db 101 ''translated_text'' = Inr (PStr s)"
       "get_content_attribute ex_translated_db 101 ''translated'' =
          get_content_attribute ex_db 101 ''translated''"
    by blast
  from h(1) have "service = ex_translate" by (simp add: ex_defs)
  moreover from h(2) have "original = PStr ''Bonjour le monde''"
    by (simp add: ex_defs db_defs)
  ultimately have "s = ''Hello world''" using h(3) by (simp add: ex_translate_def)
  moreover have "get_content_attribute ex_db 101 ''translated'' = Inr (PBool False)"
    by (simp add: ex_defs db_defs)
  ultimately show ?thesis using run h(4,5) by simp
qed

text \<open>
  Claim C7 as stated fails for a provider that returns no text: the worker connects,
  loads its services and finds the provider, the provider returns \<^verbatim>\<open>None\<close>, and the
  task returns False. Nothing is raised, so the queue sees a completed task, not a
  failed one.
\<close>

theorem translate_content_no_text_counterexample:
  "db_connects ex_silent_env \<and> services_load ex_silent_env = None \<and>
   translation_registry ex_silent_env ''gpt3.5'' = Some ex_silent_translate \<and>
   get_content_attribute ex_db 101 ''original_text'' = Inr (PStr ''Bonjour le monde'') \<and>
   ex_silent_translate (PStr ''Bonjour le monde'') = Inr PNone \<and>
   translate_content ex_silent_env ex_db [] 101 = (Inr (PBool False), ex_db, []) \<and>
   \<not> task_failed (fst (translate_content ex_silent_env ex_db [] 101))"
  by (simp add: ex_silent_run task_failed_def) (simp add: ex_defs db_defs)

text \<open>
  Claim C7, amended: in a run that reaches the provider (the database connects, the
  services load, the provider is registered and the original text is a string), a
  provider that raises makes the task raise that exception, which fails it for the
  queue, and a provider that returns a falsy value (no text) makes the task return
  False; in both cases the database and the queue are left as they were, so nothing
  is persisted and no \<^verbatim>\<open>analyse_content\<close> task is sent.
\<close>

theorem translate_content_provider_failure:
  assumes "db_connects e" and "services_load e = None"
    and "translation_registry e ''gpt3.5'' = Some service"
    and "get_content_attribute db cid ''original_text'' = Inr (PStr s)"
  shows "(service (PStr s) = Inl err \<longrightarrow>
            translate_content e db q cid = (Inl err, db, q) \<and>
            task_failed (fst (translate_content e db q cid))) \<and>
         (service (PStr s) = Inr v \<and> \<not> truthy v \<longrightarrow>
            translate_content e db q cid = (Inr (PBool False), db, q))"
  using assms by (simp add: translate_content_def task_failed_def)

text \<open>A provider that raises and one that returns no text, on content 101.\<close>

theorem translate_content_provider_failure_witness:
  "translate_content ex_failing_env ex_db [] 101 = (Inl (OtherError ''rate limit''), ex_db, []) \<and>
   task_failed (fst (translate_content ex_failing_env ex_db [] 101)) \<and>
   translate_content ex_silent_env ex_db [] 101 = (Inr (PBool False), ex_db, [])"
proof -
  have a: "db_connects ex_failing_env" "services_load ex_failing_env = None"
    "translation_registry ex_failing_env ''gpt3.5'' = Some ex_failing_translate"
    by (simp_all add: ex_defs)
  have b: "db_connects ex_silent_env" "services_load ex_silent_env = None"
    "translation_registry ex_silent_env ''gpt3.5'' = Some ex_silent_translate"
    by (simp_all add: ex_defs)
  have g: "get_content_attribute ex_db 101 ''original_text'' = Inr (PStr ''Bonjour le monde'')"
    by (simp add: ex_defs db_defs)
  have f: "ex_failing_translate (PStr ''Bonjour le monde'') = Inl (OtherError ''rate limit'')"
    by (simp add: ex_failing_translate_def)
  have n: "ex_silent_translate (PStr ''Bonjour le monde'') = Inr PNone \<and> \<not> truthy PNone"
    by (simp add: ex_silent_translate_def)
  from translate_content_provider_failure [OF a g, of "OtherError ''rate limit''" "[]" PNone]
       translate_content_provider_failure [OF b g, of "OtherError ''rate limit''" "[]" PNone]
       f n
  show ?thesis by blast
qed

section \<open>Attribute access on content rows\<close>

text \<open>
  Claim C10: for an existing content row and an attribute name the row does not have
  (neither a column attribute, nor another attribute of the class, nor an inherited
  one),
  \<^verbatim>\<open>get_content_attribute\<close> returns \<^verbatim>\<open>None\<close> and \<^verbatim>\<open>set_content_attribute\<close> raises
  \<^verbatim>\<open>AttributeError\<close> (leaving the database as it was); for a content id with no row
  both raise \<^verbatim>\<open>ContentNotFoundError\<close>.
\<close>

theorem content_attribute_unknown_or_missing:
  "(query_content db cid = Some c \<and> n \<notin> set content_columns \<and>
    n \<notin> set content_class_attributes \<and> content_inherited (mapped db) c n = None \<longrightarrow>
      get_content_attribute db cid n = Inr PNone \<and>
      set_content_attribute db cid n v = (Inl AttributeError, db)) \<and>
   (query_content db cid = None \<longrightarrow>
      get_content_attribute db cid n = Inl ContentNotFoundError \<and>
      set_content_attribute db cid n v = (Inl ContentNotFoundError, db))"
proof (intro conjI impI)
  assume a: "query_content db cid = Some c \<and> n \<notin> set content_columns \<and>
    n \<notin> set content_class_attributes \<and> content_inherited (mapped db) c n = None"
  then have "content_column c n = None" by (simp add: content_column_iff)
  with a have g: "getattr_content db c n = None" by (simp add: getattr_content_def)
  with a show "get_content_attribute db cid n = Inr PNone"
    by (simp add: get_content_attribute_def)
  from a g show "set_content_attribute db cid n v = (Inl AttributeError, db)"
    by (simp add: set_content_attribute_def hasattr_content_def)
next
  assume "query_content db cid = None"
  then show "get_content_attribute db cid n = Inl ContentNotFoundError"
    and "set_content_attribute db cid n v = (Inl ContentNotFoundError, db)"
    by (simp_all add: get_content_attribute_def set_content_attribute_def)
qed

text \<open>The attribute \<^verbatim>\<open>colour\<close> on content 101, which exists, and 999, which does not.\<close>

theorem content_attribute_unknown_or_missing_witness:
  "get_content_attribute ex_db 101 ''colour'' = Inr PNone \<and>
   set_content_attribute ex_db 101 ''colour'' (PStr ''red'') = (Inl AttributeError, ex_db) \<and>
   get_content_attribute ex_db 999 ''colour'' = Inl ContentNotFoundError \<and>
   set_content_attribute ex_db 999 ''colour'' (PStr ''red'') = (Inl ContentNotFoundError, ex_db)"
proof -
  have a: "query_content ex_db 101 = Some ex_content \<and> ''colour'' \<notin> set content_columns \<and>
    ''colour'' \<notin> set content_class_attributes \<and>
    content_inherited (mapped ex_db) ex_content ''colour'' = None"
    by (simp add: ex_defs db_defs ex_mapper_defs)
  have b: "query_content ex_db 999 = None"
    by (simp add: ex_defs db_defs)
  from content_attribute_unknown_or_missing
         [of ex_db 101 ex_content "''colour''" "PStr ''red''"]
       content_attribute_unknown_or_missing
         [of ex_db 999 ex_content "''colour''" "PStr ''red''"] a b
  show ?thesis by blast
qed

section \<open>The enabled requirements of a source\<close>

lemma collect_enabled_eq:
  "collect_enabled acc rows =
     acc @ map requirement_entry (filter (\<lambda>r. rq_enabled r = Some True) rows)"
  by (induction rows arbitrary: acc) simp_all

lemma get_analysis_requirements_eq:
  "get_analysis_requirements db sid = Inr (map requirement_entry (enabled_requirements db sid))"
  by (simp add: get_analysis_requirements_def collect_enabled_eq enabled_requirements_def)

lemma query_source_None_filter:
  assumes "requirement_sources_exist db" and "query_source db sid = None"
  shows "filter (\<lambda>r. PInt (rq_source_id r) = sid) (requirements db) = []"
proof -
  have "\<not> (PInt (rq_source_id r) = sid)" if "r \<in> set (requirements db)" for r
  proof
    assume "PInt (rq_source_id r) = sid"
    moreover from assms(1) that have "query_source db (PInt (rq_source_id r)) \<noteq> None"
      by (simp add: requirement_sources_exist_def list_all_iff)
    ultimately show False using assms(2) by simp
  qed
  then show ?thesis by (simp add: filter_empty_conv)
qed

text \<open>
  Claim C9: \<^verbatim>\<open>get_analysis_requirements\<close> returns exactly the enabled requirements of
  the source, in the order of the table: one dict for each, whose \<^verbatim>\<open>req_id\<close>,
  \<^verbatim>\<open>name\<close>, \<^verbatim>\<open>llm_id\<close> and \<^verbatim>\<open>prompt\<close> are the id, name, model id and prompt of
  that requirement. It never raises: for a source id with no requirement rows it
  returns the empty list, and so it does for a source id with no source row (no
  requirement row can refer to it), where \<^verbatim>\<open>get_source_attribute\<close> raises
  \<^verbatim>\<open>ContentNotFoundError\<close>, as \<^verbatim>\<open>get_content_attribute\<close> does for a content id
  with no row.
\<close>

theorem get_analysis_requirements_enabled_only:
  "(\<exists>ds. get_analysis_requirements db sid = Inr ds \<and>
         map req_id ds = map rq_id (enabled_requirements db sid) \<and>
         map name ds = map rq_name (enabled_requirements db sid) \<and>
         map llm_id ds = map rq_llm_id (enabled_requirements db sid) \<and>
         map prompt ds = map rq_prompt (enabled_requirements db sid)) \<and>
   (filter (\<lambda>r. PInt (rq_source_id r) = sid) (requirements db) = [] \<longrightarrow>
      get_analysis_requirements db sid = Inr []) \<and>
   (query_source db sid = None \<longrightarrow>
      get_source_attribute db sid n = Inl ContentNotFoundError \<and>
      (requirement_sources_exist db \<longrightarrow> get_analysis_requirements db sid = Inr [])) \<and>
   (query_content db cid = None \<longrightarrow> get_content_attribute db cid n = Inl ContentNotFoundError)"
proof (intro conjI impI)
  show "\<exists>ds. get_analysis_requirements db sid = Inr ds \<and>
         map req_id ds = map rq_id (enabled_requirements db sid) \<and>
         map name ds = map rq_name (enabled_requirements db sid) \<and>
         map llm_id ds = map rq_llm_id (enabled_requirements db sid) \<and>
         map prompt ds = map rq_prompt (enabled_requirements db sid)"
    by (simp add: get_analysis_requirements_eq requirement_entry_def comp_def)
next
  assume "filter (\<lambda>r. PInt (rq_source_id r) = sid) (requirements db) = []"
  then show "get_analysis_requirements db sid = Inr []"
    by (simp add: get_analysis_requirements_def)
next
  assume "query_source db sid = None"
  then show "get_source_attribute db sid n = Inl ContentNotFoundError"
    by (simp add: get_source_attribute_def)
next
  assume "query_source db sid = None" and "requirement_sources_exist db"
  then show "get_analysis_requirements db sid = Inr []"
    by (simp add: get_analysis_requirements_def query_source_None_filter)
next
  assume "query_content db cid = None"
  then show "get_content_attribute db cid n = Inl ContentNotFoundError"
    by (simp add: get_content_attribute_def)
qed

text \<open>
  Source 7 with two enabled requirements and one switched off, and source 8, which does
  not exist.
\<close>

theorem get_analysis_requirements_enabled_only_witness:
  "get_analysis_requirements ex_mixed_db (PInt 7) = Inr [ex_dict, ex_dict_topic] \<and>
   get_analysis_requirements ex_mixed_db (PInt 8) = Inr [] \<and>
   get_source_attribute ex_mixed_db (PInt 8) ''enabled'' = Inl ContentNotFoundError \<and>
   get_content_attribute ex_mixed_db 999 ''translated_text'' = Inl ContentNotFoundError"
proof -
  have a: "enabled_requirements ex_mixed_db (PInt 7) = [ex_requirement, ex_requirement_topic]"
    by (simp add: enabled_requirements_def ex_defs)
  have b: "filter (\<lambda>r. PInt (rq_source_id r) = PInt 8) (requirements ex_mixed_db) = []"
    by (simp add: ex_defs)
  have c: "query_source ex_mixed_db (PInt 8) = None"
    by (simp add: ex_defs db_defs)
  have d: "requirement_sources_exist ex_mixed_db"
    by (simp add: requirement_sources_exist_def ex_defs db_defs)
  have e: "query_content ex_mixed_db 999 = None"
    by (simp add: ex_defs db_defs)
  from get_analysis_requirements_enabled_only [of ex_mixed_db "PInt 7" "''enabled''" 999]
  obtain ds where
    g: "get_analysis_requirements ex_mixed_db (PInt 7) = Inr ds" and
    m: "map req_id ds = map rq_id (enabled_requirements ex_mixed_db (PInt 7))"
       "map name ds = map rq_name (enabled_requirements ex_mixed_db (PInt 7))"
       "map llm_id ds = map rq_llm_id (enabled_requirements ex_mixed_db (PInt 7))"
       "map prompt ds = map rq_prompt (enabled_requirements ex_mixed_db (PInt 7))"
    by blast
  from m(1) a obtain d1 d2 where ds: "ds = [d1, d2]"
    by (cases ds; cases "tl ds") auto
  from m a ds have "d1 = ex_dict" and "d2 = ex_dict_topic"
    by (simp_all add: ex_defs)
  with g ds have 1: "get_analysis_requirements ex_mixed_db (PInt 7) = Inr [ex_dict, ex_dict_topic]"
    by simp
  from get_analysis_requirements_enabled_only [of ex_mixed_db "PInt 8" "''enabled''" 999] b c d e
  have 2: "get_analysis_requirements ex_mixed_db (PInt 8) = Inr [] \<and>
     get_source_attribute ex_mixed_db (PInt 8) ''enabled'' = Inl ContentNotFoundError"
    by blast
  from get_analysis_requirements_enabled_only
         [of ex_mixed_db "PInt 8" "''translated_text''" 999] e
  have 3: "get_content_attribute ex_mixed_db 999 ''translated_text'' = Inl ContentNotFoundError"
    by blast
  from 1 2 3 show ?thesis by blast
qed

section \<open>The collector\<close>

lemma find_None_filter: "find P xs = None \<longleftrightarrow> filter P xs = []"
  by (induction xs) simp_all

lemma find_append_first:
  "find P (xs @ ys) = (case find P xs of None \<Rightarrow> find P ys | Some x \<Rightarrow> Some x)"
  by (induction xs) simp_all

text \<open>
  What \<^verbatim>\<open>add_source\<close> does to the source table: with a pair of collector id and uid
  that is registered it leaves the database as it was and returns \<^verbatim>\<open>None\<close>, its
  signal for "already exists"; with a pair that is not registered it appends a new
  source row, which is then the only one registered under the pair, and returns the
  instance. Invoking it again with the same pair always returns \<^verbatim>\<open>None\<close> and
  changes nothing.
\<close>

lemma add_source_rows:
  "(query_source_uid db uid (collector_id col) = Some s \<longrightarrow>
      add_source col db uid friendly_name = (None, db)) \<and>
   (query_source_uid db uid (collector_id col) = None \<longrightarrow>
      (\<exists>new. add_source col db uid friendly_name =
                (Some Detached, db\<lparr>sources := sources db @ [new],
                                    next_source_id := next_source_id db + 1\<rparr>) \<and>
              src_uid new = uid \<and> src_collector_id new = collector_id col \<and>
              src_id new = next_source_id db \<and>
              src_friendly_name new = Some friendly_name \<and>
              registered (snd (add_source col db uid friendly_name)) (collector_id col) uid
                = [new])) \<and>
   add_source col (snd (add_source col db uid friendly_name)) uid friendly_name' =
     (None, snd (add_source col db uid friendly_name))"
proof (intro conjI impI)
  assume "query_source_uid db uid (collector_id col) = Some s"
  then show "add_source col db uid friendly_name = (None, db)"
    by (simp add: add_source_def)
next
  assume n: "query_source_uid db uid (collector_id col) = None"
  then have "registered db (collector_id col) uid = []"
    by (simp add: query_source_uid_def registered_def find_None_filter)
  with n show "\<exists>new. add_source col db uid friendly_name =
                (Some Detached, db\<lparr>sources := sources db @ [new],
                                    next_source_id := next_source_id db + 1\<rparr>) \<and>
              src_uid new = uid \<and> src_collector_id new = collector_id col \<and>
              src_id new = next_source_id db \<and>
              src_friendly_name new = Some friendly_name \<and>
              registered (snd (add_source col db uid friendly_name)) (collector_id col) uid
                = [new]"
    by (simp add: add_source_def registered_def Let_def)
next
  show "add_source col (snd (add_source col db uid friendly_name)) uid friendly_name' =
     (None, snd (add_source col db uid friendly_name))"
  proof (cases "query_source_uid db uid (collector_id col)")
    case (Some s)
    then show ?thesis by (simp add: add_source_def)
  next
    case None
    then have "find (\<lambda>s. src_uid s = uid \<and> src_collector_id s = collector_id col) (sources db)
        = None"
      by (simp add: query_source_uid_def)
    then show ?thesis
      by (simp add: add_source_def query_source_uid_def Let_def find_append_first)
  qed
qed

text \<open>
  Claim C5 holds of the source table and of the registered pair, and fails on the code
  in what a new source returns. For the pair of collector 1 and \<^verbatim>\<open>chan-43\<close>, which is
  not registered, \<^verbatim>\<open>add_source\<close> inserts source 8 and returns its instance, as its
  docstring says; but the instance comes out of a session scope that has committed and
  closed, so that reading its \<^verbatim>\<open>id\<close> or its \<^verbatim>\<open>uid\<close> raises
  \<^verbatim>\<open>DetachedInstanceError\<close>: the caller is not given the new Source row.
\<close>

theorem add_source_returns_detached_instance:
  "add_source ex_collector ex_db ''chan-43'' ''Other Channel'' =
     (Some Detached,
      ex_db\<lparr>sources :=
               [ex_source,
                \<lparr>src_id = 8, src_collector_id = 1, src_uid = ''chan-43'',
                 src_friendly_name = Some ''Other Channel'', src_user_note = None,
                 src_enabled = Some True, src_metadata = None\<rparr>],
            next_source_id := 9\<rparr>) \<and>
   read_column Detached ''id'' = Inl DetachedInstanceError \<and>
   read_column Detached ''uid'' = Inl DetachedInstanceError"
  by (simp add: add_source_def read_column_def ex_defs db_defs Let_def)

text \<open>
  Claim C4 as stated fails for \<^verbatim>\<open>add_content\<close> itself: called with the empty string,
  or with \<^verbatim>\<open>None\<close>, for a known source, it inserts a content row and returns its id.
\<close>

theorem add_content_empty_text_counterexample:
  "add_content ex_collector ex_db 0 ''chan-42'' (PDatetime 0) (PStr []) [] =
     (Some 102,
      ex_db\<lparr>contents := [ex_content,
                \<lparr>cnt_id = PInt 102, cnt_source_id = PInt 7,
                 cnt_collection_time = PDatetime 0, cnt_origin_time = PDatetime 0,
                 cnt_translated = PBool False, cnt_analysed = PBool False,
                 cnt_original_text = PStr [], cnt_translated_text = PNone,
                 cnt_content_metadata = PNone\<rparr>],
            next_content_id := 103\<rparr>) \<and>
   fst (add_content ex_collector ex_db 0 ''chan-42'' (PDatetime 0) PNone []) = Some 102"
  by (simp add: add_content_def ex_defs db_defs)

text \<open>
  Claim C4, amended: the guard on the text and the enqueueing are in
  \<^verbatim>\<open>process_message\<close>, the caller of \<^verbatim>\<open>add_content\<close>. For a message that is
  absent or whose text is null or empty, \<^verbatim>\<open>process_message\<close> creates no content row
  and sends no task. For a message with non-empty text from a known source it adds the
  content through \<^verbatim>\<open>add_content\<close> and sends one \<^verbatim>\<open>translate_content\<close> task for
  the new content id (the id being non-zero, as auto-increment ids are).
  \<^verbatim>\<open>add_content\<close> itself, for a known source, stores the text it is given,
  whatever it is, in a new untranslated row and sends no task.
\<close>

theorem process_message_guards_text:
  "(ev_message ev = None \<or>
    (\<exists>m. ev_message ev = Some m \<and> (msg_text m = None \<or> msg_text m = Some [])) \<longrightarrow>
      process_message col db q now ev = (Inr (), db, q)) \<and>
   (ev_message ev = Some m \<and> msg_text m = Some t \<and> t \<noteq> [] \<and> ev_sender ev = Some uid \<and>
    query_source_uid db uid (collector_id col) = Some s \<and> next_content_id db \<noteq> 0 \<longrightarrow>
      (\<exists>db'. add_content col db now uid (msg_date m) (PStr t) [] =
               (Some (next_content_id db), db') \<and>
             process_message col db q now ev =
               (Inr (), db',
                q @ [\<lparr>task_name = ''translate_content'', task_arg = next_content_id db,
                       task_queue = ''translation''\<rparr>]))) \<and>
   (query_source_uid db uid (collector_id col) = Some s \<longrightarrow>
      (\<exists>row. add_content col db now uid origin_time text' metadata =
               (Some (next_content_id db),
                db\<lparr>contents := contents db @ [row],
                   next_content_id := next_content_id db + 1\<rparr>) \<and>
             cnt_id row = PInt (next_content_id db) \<and> cnt_source_id row = PInt (src_id s) \<and>
             cnt_original_text row = text' \<and> cnt_translated_text row = PNone \<and>
             cnt_translated row = PBool False \<and> cnt_analysed row = PBool False))"
proof (intro conjI impI)
  assume "ev_message ev = None \<or>
    (\<exists>m. ev_message ev = Some m \<and> (msg_text m = None \<or> msg_text m = Some []))"
  then show "process_message col db q now ev = (Inr (), db, q)"
    by (auto simp: process_message_def)
next
  assume a: "ev_message ev = Some m \<and> msg_text m = Some t \<and> t \<noteq> [] \<and> ev_sender ev = Some uid \<and>
    query_source_uid db uid (collector_id col) = Some s \<and> next_content_id db \<noteq> 0"
  then show "\<exists>db'. add_content col db now uid (msg_date m) (PStr t) [] =
               (Some (next_content_id db), db') \<and>
             process_message col db q now ev =
               (Inr (), db',
                q @ [\<lparr>task_name = ''translate_content'', task_arg = next_content_id db,
                       task_queue = ''translation''\<rparr>])"
    by (simp add: process_message_def add_content_def send_task_def)
next
  let ?row = "\<lparr>cnt_id = PInt (next_content_id db), cnt_source_id = PInt (src_id s),
                cnt_collection_time = PDatetime now, cnt_origin_time = origin_time,
                cnt_translated = PBool False, cnt_analysed = PBool False,
                cnt_original_text = text', cnt_translated_text = PNone,
                cnt_content_metadata = PNone\<rparr>"
  assume "query_source_uid db uid (collector_id col) = Some s"
  then have "add_content col db now uid origin_time text' metadata =
      (Some (next_content_id db),
       db\<lparr>contents := contents db @ [?row], next_content_id := next_content_id db + 1\<rparr>)"
    by (simp add: add_content_def)
  then show "\<exists>row. add_content col db now uid origin_time text' metadata =
               (Some (next_content_id db),
                db\<lparr>contents := contents db @ [row],
                   next_content_id := next_content_id db + 1\<rparr>) \<and>
             cnt_id row = PInt (next_content_id db) \<and> cnt_source_id row = PInt (src_id s) \<and>
             cnt_original_text row = text' \<and> cnt_translated_text row = PNone \<and>
             cnt_translated row = PBool False \<and> cnt_analysed row = PBool False"
    by (intro exI [of _ ?row]) simp
qed

text \<open>A message with empty text and one with text, from \<^verbatim>\<open>chan-42\<close>.\<close>

theorem process_message_guards_text_witness:
  "process_message ex_collector ex_db [] 0 ex_empty_event = (Inr (), ex_db, []) \<and>
   snd (snd (process_message ex_collector ex_db [] 0 ex_event)) = [ex_translate_task] \<and>
   fst (add_content ex_collector ex_db 0 ''chan-42'' (PDatetime 0) (PStr ''Bonjour'') []) =
     Some 102"
proof -
  have a: "ev_message ex_empty_event = None \<or>
    (\<exists>m. ev_message ex_empty_event = Some m \<and> (msg_text m = None \<or> msg_text m = Some []))"
    by (simp add: ex_defs)
  have b: "ev_message ex_event = Some \<lparr>msg_text = Some ''Bonjour'', msg_date = PDatetime 0\<rparr> \<and>
    msg_text \<lparr>msg_text = Some ''Bonjour'', msg_date = PDatetime 0\<rparr> = Some ''Bonjour'' \<and>
    ''Bonjour'' \<noteq> [] \<and> ev_sender ex_event = Some ''chan-42'' \<and>
    query_source_uid ex_db ''chan-42'' (collector_id ex_collector) = Some ex_source \<and>
    next_content_id ex_db \<noteq> 0"
    by (simp add: ex_defs db_defs)
  have n: "next_content_id ex_db = 102" by (simp add: ex_defs)
  from process_message_guards_text [of ex_empty_event ex_collector ex_db "[]" 0] a
  have 1: "process_message ex_collector ex_db [] 0 ex_empty_event = (Inr (), ex_db, [])"
    by blast
  from process_message_guards_text [where ev = ex_event and col = ex_collector and db = ex_db
      and q = "[]" and now = 0 and t = "''Bonjour''" and uid = "''chan-42''" and s = ex_source
      and m = "\<lparr>msg_text = Some ''Bonjour'', msg_date = PDatetime 0\<rparr>"
      and origin_time = "PDatetime 0" and text' = "PStr ''Bonjour''" and metadata = "[]"] b
  have "\<exists>db'. add_content ex_collector ex_db 0 ''chan-42'' (PDatetime 0) (PStr ''Bonjour'') [] =
          (Some (next_content_id ex_db), db') \<and>
       process_message ex_collector ex_db [] 0 ex_event =
          (Inr (), db', [] @ [\<lparr>task_name = ''translate_content'',
              task_arg = next_content_id ex_db, task_queue = ''translation''\<rparr>])"
    by simp
  then obtain db' where
    2: "add_content ex_collector ex_db 0 ''chan-42'' (PDatetime 0) (PStr ''Bonjour'') [] =
          (Some (next_content_id ex_db), db')"
       "process_message ex_collector ex_db [] 0 ex_event =
          (Inr (), db', [] @ [\<lparr>task_name = ''translate_content'',
              task_arg = next_content_id ex_db, task_queue = ''translation''\<rparr>])"
    by blast
  from 1 2 n show ?thesis by (simp add: ex_translate_task_def)
qed

section \<open>The analysis stage\<close>

lemma process_requirements_Some:
  "process_requirements e cid t rs db = (Some out, db') \<Longrightarrow>
     out = Inr (PBool False) \<or> (\<exists>err. out = Inl err)"
proof (induction rs arbitrary: db)
  case Nil
  then show ?case by simp
next
  case (Cons r rs)
  show ?case
  proof (cases "analysis_registry e ''gpt3.5''")
    case None
    with Cons.prems show ?thesis by auto
  next
    case (Some service)
    show ?thesis
    proof (cases "service (prompt r) t")
      case (Inl err)
      with Cons.prems Some have "out = Inl err" by simp
      then show ?thesis by blast
    next
      case (Inr analysis)
      with Cons.prems Some Cons.IH show ?thesis by (cases analysis) auto
    qed
  qed
qed

lemma process_requirements_None:
  "process_requirements e cid t rs db = (None, db') \<Longrightarrow>
     \<exists>new. results db' = results db @ new \<and> map res_req_id new = map req_id rs \<and>
           list_all (\<lambda>x. res_content_id x = cid) new"
proof (induction rs arbitrary: db)
  case Nil
  then show ?case by simp
next
  case (Cons r rs)
  from Cons.prems obtain service where s: "analysis_registry e ''gpt3.5'' = Some service"
    by (cases "analysis_registry e ''gpt3.5''") simp_all
  from Cons.prems s obtain analysis where a: "service (prompt r) t = Inr analysis"
    by (cases "service (prompt r) t") simp_all
  from Cons.prems s a obtain out where o: "analysis = PStr out"
    by (cases analysis) simp_all
  let ?db1 = "snd (save_analysis_result db (utcnow e) cid (req_id r) out)"
  from Cons.prems s a o have "process_requirements e cid t rs ?db1 = (None, db')"
    by simp
  from Cons.IH [OF this] obtain new where
    n: "results db' = results ?db1 @ new" "map res_req_id new = map req_id rs"
       "list_all (\<lambda>x. res_content_id x = cid) new"
    by blast
  let ?row = "\<lparr>res_id = next_result_id db, res_req_id = req_id r, res_content_id = cid,
               res_analysis_time = utcnow e, res_output = out\<rparr>"
  have "results db' = results db @ (?row # new)"
    using n(1) by (simp add: save_analysis_result_def)
  moreover have "map res_req_id (?row # new) = map req_id (r # rs)"
    using n(2) by simp
  moreover have "list_all (\<lambda>x. res_content_id x = cid) (?row # new)"
    using n(3) by simp
  ultimately show ?case by blast
qed

lemma process_requirements_tables:
  "contents (snd (process_requirements e cid t rs db)) = contents db \<and>
   sources (snd (process_requirements e cid t rs db)) = sources db \<and>
   requirements (snd (process_requirements e cid t rs db)) = requirements db"
proof (induction rs arbitrary: db)
  case Nil
  show ?case by simp
next
  case (Cons r rs)
  show ?case
  proof (cases "analysis_registry e ''gpt3.5''")
    case None
    then show ?thesis by simp
  next
    case (Some service)
    show ?thesis
    proof (cases "service (prompt r) t")
      case (Inl err)
      with Some show ?thesis by simp
    next
      case (Inr analysis)
      with Some Cons.IH show ?thesis
        by (cases analysis) (simp_all add: save_analysis_result_def)
    qed
  qed
qed

lemma analyse_content_cases:
  "analyse_content e db cid = (out, db') \<Longrightarrow>
     (db' = db \<and> out \<noteq> Inr (PBool True)) \<or>
     (\<exists>t sid r. db_connects e \<and> services_load e = None \<and>
        get_content_attribute db cid ''translated_text'' = Inr t \<and>
        get_content_attribute db cid ''source_id'' = Inr sid \<and>
        process_requirements e cid t
          (map requirement_entry (enabled_requirements db sid)) db = (r, db') \<and>
        out = (case r of None \<Rightarrow> Inr (PBool True) | Some out' \<Rightarrow> out'))"
  unfolding analyse_content_def get_analysis_requirements_eq
  by (simp split: if_splits option.splits sum.splits prod.splits) auto

lemma process_requirements_outputs:
  "analysis_registry e ''gpt3.5'' = Some service \<Longrightarrow>
   process_requirements e cid t rs db = (None, db') \<Longrightarrow>
     \<exists>new. results db' = results db @ new \<and> map res_req_id new = map req_id rs \<and>
           map (\<lambda>x. Inr (PStr (res_output x))) new = map (\<lambda>r. service (prompt r) t) rs"
proof (induction rs arbitrary: db)
  case Nil
  then show ?case by simp
next
  case (Cons r rs)
  note s = Cons.prems(1)
  from Cons.prems s obtain analysis where a: "service (prompt r) t = Inr analysis"
    by (cases "service (prompt r) t") simp_all
  from Cons.prems s a obtain out where o: "analysis = PStr out"
    by (cases analysis) simp_all
  let ?db1 = "snd (save_analysis_result db (utcnow e) cid (req_id r) out)"
  from Cons.prems s a o have "process_requirements e cid t rs ?db1 = (None, db')"
    by simp
  from Cons.IH [OF s this] obtain new where
    n: "results db' = results ?db1 @ new" "map res_req_id new = map req_id rs"
       "map (\<lambda>x. Inr (PStr (res_output x))) new = map (\<lambda>r. service (prompt r) t) rs"
    by blast
  let ?row = "\<lparr>res_id = next_result_id db, res_req_id = req_id r, res_content_id = cid,
               res_analysis_time = utcnow e, res_output = out\<rparr>"
  have "results db' = results db @ (?row # new)"
    using n(1) by (simp add: save_analysis_result_def)
  moreover have "map res_req_id (?row # new) = map req_id (r # rs)"
    using n(2) by simp
  moreover have "map (\<lambda>x. Inr (PStr (res_output x))) (?row # new) =
      map (\<lambda>r. service (prompt r) t) (r # rs)"
    using n(3) a o by simp
  ultimately show ?case by blast
qed

lemma process_requirements_completes:
  "analysis_registry e ''gpt3.5'' = Some service \<Longrightarrow>
   list_all (\<lambda>r. \<exists>s. service (prompt r) t = Inr (PStr s)) rs \<Longrightarrow>
     fst (process_requirements e cid t rs db) = None"
proof (induction rs arbitrary: db)
  case Nil
  then show ?case by simp
next
  case (Cons r rs)
  from Cons.prems(2) obtain s where s: "service (prompt r) t = Inr (PStr s)"
    by auto
  from Cons.prems(2) have "list_all (\<lambda>r. \<exists>s. service (prompt r) t = Inr (PStr s)) rs"
    by simp
  from Cons.IH [OF Cons.prems(1) this] Cons.prems(1) s show ?case
    by simp
qed

lemma process_requirements_independent:
  assumes "analysis_registry e' ''gpt3.5'' = analysis_registry e ''gpt3.5''"
    and "utcnow e' = utcnow e"
    and "map (\<lambda>r. (req_id r, name r, prompt r)) rs' = map (\<lambda>r. (req_id r, name r, prompt r)) rs"
  shows "process_requirements e' cid t rs' db = process_requirements e cid t rs db"
  using assms(3)
proof (induction rs arbitrary: rs' db)
  case Nil
  then show ?case by simp
next
  case (Cons r rs)
  from Cons.prems obtain r' rest where
    rs': "rs' = r' # rest" and
    h: "req_id r' = req_id r" "prompt r' = prompt r" and
    t: "map (\<lambda>r. (req_id r, name r, prompt r)) rest = map (\<lambda>r. (req_id r, name r, prompt r)) rs"
    by (cases rs') auto
  show ?case
  proof (cases "analysis_registry e ''gpt3.5''")
    case None
    with assms(1) rs' show ?thesis by simp
  next
    case (Some service)
    show ?thesis
    proof (cases "service (prompt r) t")
      case (Inl err)
      with Some assms(1) rs' h show ?thesis by simp
    next
      case (Inr analysis)
      with Some assms(1,2) rs' h Cons.IH [OF t] show ?thesis
        by (cases analysis) simp_all
    qed
  qed
qed

lemma get_content_attribute_column:
  assumes "n \<in> set content_columns" and "contents db' = contents db"
  shows "get_content_attribute db' cid n = get_content_attribute db cid n"
proof -
  have "getattr_content db' c n = getattr_content db c n" for c
    using assms(1) content_column_iff [of c n]
    by (cases "content_column c n") (simp_all add: getattr_content_def)
  with assms(2) show ?thesis
    by (simp add: get_content_attribute_def query_content_def split: option.splits)
qed

text \<open>
  Claim C2 as stated fails in the scenario: the analysis task returns True after
  producing the result of the one enabled requirement, and the \<^verbatim>\<open>analysed\<close> flag of
  content 101, False before, is still False afterwards.
\<close>

theorem analyse_content_analysed_flag_counterexample:
  "fst (analyse_content ex_env ex_translated_db 101) = Inr (PBool True) \<and>
   get_content_attribute ex_translated_db 101 ''analysed'' = Inr (PBool False) \<and>
   get_content_attribute (snd (analyse_content ex_env ex_translated_db 101)) 101 ''analysed''
     = Inr (PBool False)"
  by (simp add: ex_analyse_run) (simp add: ex_defs db_defs)

text \<open>
  Claim C2, amended: an analysis-stage invocation, fully successful or not, leaves the
  content table as it was (and the source and requirement tables too), so every column
  attribute of a content row, the \<^verbatim>\<open>analysed\<close> flag among them, reads after the
  invocation as it read before; the stage writes analysis results only.
\<close>

theorem analyse_content_keeps_content:
  "contents (snd (analyse_content e db cid)) = contents db \<and>
   sources (snd (analyse_content e db cid)) = sources db \<and>
   requirements (snd (analyse_content e db cid)) = requirements db \<and>
   get_content_attribute (snd (analyse_content e db cid)) cid' ''analysed'' =
     get_content_attribute db cid' ''analysed'' \<and>
   list_all (\<lambda>n. get_content_attribute (snd (analyse_content e db cid)) cid' n =
                  get_content_attribute db cid' n) content_columns"
proof -
  obtain out db' where r: "analyse_content e db cid = (out, db')"
    by (cases "analyse_content e db cid")
  have "contents db' = contents db \<and> sources db' = sources db \<and>
      requirements db' = requirements db"
    using analyse_content_cases [OF r]
  proof (elim disjE exE conjE)
    assume "db' = db"
    then show ?thesis by simp
  next
    fix t sid r
    assume "process_requirements e cid t
              (map requirement_entry (enabled_requirements db sid)) db = (r, db')"
    then have "db' = snd (process_requirements e cid t
                (map requirement_entry (enabled_requirements db sid)) db)"
      by simp
    then show ?thesis by (simp add: process_requirements_tables)
  qed
  then have t: "contents db' = contents db" "sources db' = sources db"
    "requirements db' = requirements db"
    by simp_all
  have "get_content_attribute db' cid' n = get_content_attribute db cid' n"
    if "n \<in> set content_columns" for n
    using that t(1) by (rule get_content_attribute_column)
  moreover have "''analysed'' \<in> set content_columns"
    by (simp add: content_columns_def)
  ultimately show ?thesis using r t by (simp add: list_all_iff)
qed

text \<open>
  Claim C3: when \<^verbatim>\<open>analyse_content\<close> returns True for a content item of a source with
  N enabled requirements (requirement ids being unique, as a primary key is), the
  invocation has appended exactly N result rows, their requirement ids are those of
  the N requirements, one each and so distinct, and every one refers to the content id.
\<close>

theorem analyse_content_one_result_per_requirement:
  assumes "analyse_content e db cid = (Inr (PBool True), db')"
    and "get_content_attribute db cid ''source_id'' = Inr sid"
    and "distinct (map rq_id (requirements db))"
  shows "\<exists>new. results db' = results db @ new \<and>
               length new = length (enabled_requirements db sid) \<and>
               map res_req_id new = map rq_id (enabled_requirements db sid) \<and>
               distinct (map res_req_id new) \<and>
               list_all (\<lambda>x. res_content_id x = cid) new"
proof -
  from analyse_content_cases [OF assms(1)] obtain t sid' r where
    g: "get_content_attribute db cid ''source_id'' = Inr sid'" and
    p: "process_requirements e cid t
          (map requirement_entry (enabled_requirements db sid')) db = (r, db')" and
    o: "Inr (PBool True) = (case r of None \<Rightarrow> Inr (PBool True) | Some out' \<Rightarrow> out')"
    by blast
  from g assms(2) have sid: "sid' = sid" by simp
  have "r = None"
  proof (cases r)
    case None
    then show ?thesis .
  next
    case (Some out')
    with o have "out' = Inr (PBool True)" by simp
    moreover from process_requirements_Some p Some
    have "out' = Inr (PBool False) \<or> (\<exists>err. out' = Inl err)" by blast
    ultimately show ?thesis by auto
  qed
  with p sid have "process_requirements e cid t
      (map requirement_entry (enabled_requirements db sid)) db = (None, db')"
    by simp
  from process_requirements_None [OF this] obtain new where
    n: "results db' = results db @ new"
       "map res_req_id new = map req_id (map requirement_entry (enabled_requirements db sid))"
       "list_all (\<lambda>x. res_content_id x = cid) new"
    by blast
  from n(2) have m: "map res_req_id new = map rq_id (enabled_requirements db sid)"
    by (simp add: requirement_entry_def comp_def)
  then have "length new = length (enabled_requirements db sid)"
    using length_map by metis
  moreover have "distinct (map res_req_id new)"
    unfolding m enabled_requirements_def using assms(3) by (rule distinct_map_filter)
  ultimately show ?thesis using n(1,3) m by blast
qed

text \<open>The scenario: one enabled requirement, one result row.\<close>

theorem analyse_content_one_result_per_requirement_witness:
  "analyse_content ex_env ex_translated_db 101 = (Inr (PBool True), ex_analysed_db) \<and>
   enabled_requirements ex_translated_db (PInt 7) = [ex_requirement] \<and>
   (\<exists>new. results ex_analysed_db = results ex_translated_db @ new \<and> length new = 1 \<and>
          map res_req_id new = [5] \<and> list_all (\<lambda>x. res_content_id x = 101) new)"
proof -
  have s: "get_content_attribute ex_translated_db 101 ''source_id'' = Inr (PInt 7)"
    by (simp add: ex_defs db_defs)
  have d: "distinct (map rq_id (requirements ex_translated_db))"
    by (simp add: ex_defs)
  have r: "enabled_requirements ex_translated_db (PInt 7) = [ex_requirement]"
    by (simp add: enabled_requirements_def ex_defs)
  from analyse_content_one_result_per_requirement [OF ex_analyse_run s d]
  have "\<exists>new. results ex_analysed_db = results ex_translated_db @ new \<and> length new = 1 \<and>
          map res_req_id new = [5] \<and> list_all (\<lambda>x. res_content_id x = 101) new"
    unfolding r by (auto simp: ex_requirement_def)
  with r show ?thesis by (simp add: ex_analyse_run)
qed

text \<open>
  Claim C6 as stated fails when the provider modules of the worker do not load: the
  task loads them before it looks at the source, so for content 101 of the disabled
  source 7 it raises, which is a failure for the queue.
\<close>

theorem analyse_content_disabled_source_counterexample:
  "get_content_attribute ex_disabled_db 101 ''source_id'' = Inr (PInt 7) \<and>
   get_source_attribute ex_disabled_db (PInt 7) ''enabled'' = Inr (PBool False) \<and>
   analyse_content ex_unloaded_env ex_disabled_db 101 =
     (Inl (OtherError ''import''), ex_disabled_db) \<and>
   task_failed (fst (analyse_content ex_unloaded_env ex_disabled_db 101))"
  by (simp add: analyse_content_def task_failed_def ex_defs db_defs)

text \<open>
  Claim C6, amended: for a content item whose source has \<^verbatim>\<open>enabled = false\<close>, an
  invocation of \<^verbatim>\<open>analyse_content\<close> leaves the database as it was, so it produces no
  result row; when the worker connects to the database and its provider modules load,
  the task ends with \<^verbatim>\<open>return None\<close>, which is not a failure for the queue; when the
  connection or the loading fails, the task raises before it looks at the source.
\<close>

theorem analyse_content_disabled_source:
  assumes "query_content db cid = Some c"
    and "query_source db (cnt_source_id c) = Some s"
    and "src_enabled s = Some False"
  shows "snd (analyse_content e db cid) = db \<and>
         results (snd (analyse_content e db cid)) = results db \<and>
         (db_connects e \<and> services_load e = None \<longrightarrow>
            analyse_content e db cid = (Inr PNone, db) \<and>
            \<not> task_failed (fst (analyse_content e db cid))) \<and>
         (\<not> (db_connects e \<and> services_load e = None) \<longrightarrow>
            task_failed (fst (analyse_content e db cid)))"
proof (cases "db_connects e")
  case False
  then show ?thesis by (simp add: analyse_content_def task_failed_def)
next
  case True
  show ?thesis
  proof (cases "services_load e")
    case (Some err)
    with True show ?thesis by (simp add: analyse_content_def task_failed_def)
  next
    case None
    have "analyse_content e db cid = (Inr PNone, db)"
      using assms True None
      by (simp add: analyse_content_def get_content_attribute_def get_source_attribute_def
          getattr_content_def getattr_source_def content_column_def source_column_def
          opt_bool_def)
    with True None show ?thesis by (simp add: task_failed_def)
  qed
qed

text \<open>The scenario with source 7 switched off, for a worker that loads and one that does not.\<close>

theorem analyse_content_disabled_source_witness:
  "analyse_content ex_env ex_disabled_db 101 = (Inr PNone, ex_disabled_db) \<and>
   \<not> task_failed (fst (analyse_content ex_env ex_disabled_db 101)) \<and>
   task_failed (fst (analyse_content ex_unloaded_env ex_disabled_db 101)) \<and>
   results (snd (analyse_content ex_unloaded_env ex_disabled_db 101)) = []"
proof -
  have a: "db_connects ex_env \<and> services_load ex_env = None"
    by (simp add: ex_defs)
  have a': "\<not> (db_connects ex_unloaded_env \<and> services_load ex_unloaded_env = None)"
    by (simp add: ex_defs)
  have b: "query_content ex_disabled_db 101 =
      Some (ex_content\<lparr>cnt_translated_text := PStr ''Hello world''\<rparr>)"
    by (simp add: ex_defs db_defs)
  have c: "query_source ex_disabled_db
      (cnt_source_id (ex_content\<lparr>cnt_translated_text := PStr ''Hello world''\<rparr>)) =
      Some (ex_source\<lparr>src_enabled := Some False\<rparr>)"
    by (simp add: ex_defs db_defs)
  have d: "src_enabled (ex_source\<lparr>src_enabled := Some False\<rparr>) = Some False"
    by simp
  have r: "results ex_disabled_db = []"
    by (simp add: ex_defs)
  from analyse_content_disabled_source [OF b c d, of ex_env] a
  have 1: "analyse_content ex_env ex_disabled_db 101 = (Inr PNone, ex_disabled_db) \<and>
     \<not> task_failed (fst (analyse_content ex_env ex_disabled_db 101))"
    by blast
  from analyse_content_disabled_source [OF b c d, of ex_unloaded_env] a' r
  have 2: "task_failed (fst (analyse_content ex_unloaded_env ex_disabled_db 101)) \<and>
     results (snd (analyse_content ex_unloaded_env ex_disabled_db 101)) = []"
    by simp
  from 1 2 show ?thesis by blast
qed

text \<open>
  Claim C8: the loop over the requirements resolves the provider under the fixed
  identifier \<^verbatim>\<open>gpt3.5\<close>, whatever the \<^verbatim>\<open>llm_id\<close> of a requirement. When nothing is
  registered under \<^verbatim>\<open>gpt3.5\<close>, the task returns False at the first requirement. When a
  provider is registered under it, that provider is the one called, on the prompt of
  each requirement and the translated text: an exception it raises at the first
  requirement ends the task, a run in which it answers every requirement with a string
  completes, and a run that completes has stored, for each requirement in turn, the
  answer of that provider. So two workers whose registries agree at \<^verbatim>\<open>gpt3.5\<close>, run on
  requirement lists that differ in \<^verbatim>\<open>llm_id\<close> only, produce the same outcome and the
  same database.
\<close>

theorem process_requirements_fixed_provider:
  "(analysis_registry e ''gpt3.5'' = None \<and> rs \<noteq> [] \<longrightarrow>
      process_requirements e cid t rs db = (Some (Inr (PBool False)), db)) \<and>
   (analysis_registry e ''gpt3.5'' = Some service \<and> service (prompt r) t = Inl err \<longrightarrow>
      process_requirements e cid t (r # rs) db = (Some (Inl err), db)) \<and>
   (analysis_registry e ''gpt3.5'' = Some service \<and>
    list_all (\<lambda>r. \<exists>s. service (prompt r) t = Inr (PStr s)) rs \<longrightarrow>
      fst (process_requirements e cid t rs db) = None) \<and>
   (analysis_registry e ''gpt3.5'' = Some service \<and>
    process_requirements e cid t rs db = (None, db') \<longrightarrow>
      (\<exists>new. results db' = results db @ new \<and> map res_req_id new = map req_id rs \<and>
             map (\<lambda>x. Inr (PStr (res_output x))) new = map (\<lambda>r. service (prompt r) t) rs)) \<and>
   (analysis_registry e' ''gpt3.5'' = analysis_registry e ''gpt3.5'' \<and> utcnow e' = utcnow e \<and>
    map (\<lambda>r. (req_id r, name r, prompt r)) rs' = map (\<lambda>r. (req_id r, name r, prompt r)) rs \<longrightarrow>
      process_requirements e' cid t rs' db = process_requirements e cid t rs db)"
proof (intro conjI impI)
  assume "analysis_registry e ''gpt3.5'' = None \<and> rs \<noteq> []"
  then show "process_requirements e cid t rs db = (Some (Inr (PBool False)), db)"
    by (cases rs) simp_all
next
  assume "analysis_registry e ''gpt3.5'' = Some service \<and> service (prompt r) t = Inl err"
  then show "process_requirements e cid t (r # rs) db = (Some (Inl err), db)"
    by simp
next
  assume "analysis_registry e ''gpt3.5'' = Some service \<and>
    list_all (\<lambda>r. \<exists>s. service (prompt r) t = Inr (PStr s)) rs"
  then show "fst (process_requirements e cid t rs db) = None"
    using process_requirements_completes by blast
next
  assume "analysis_registry e ''gpt3.5'' = Some service \<and>
    process_requirements e cid t rs db = (None, db')"
  then show "\<exists>new. results db' = results db @ new \<and> map res_req_id new = map req_id rs \<and>
             map (\<lambda>x. Inr (PStr (res_output x))) new = map (\<lambda>r. service (prompt r) t) rs"
    using process_requirements_outputs by blast
next
  assume "analysis_registry e' ''gpt3.5'' = analysis_registry e ''gpt3.5'' \<and>
    utcnow e' = utcnow e \<and>
    map (\<lambda>r. (req_id r, name r, prompt r)) rs' = map (\<lambda>r. (req_id r, name r, prompt r)) rs"
  then show "process_requirements e' cid t rs' db = process_requirements e cid t rs db"
    using process_requirements_independent by blast
qed

text \<open>
  Requirement 5 declared for model 2: with nothing registered, with a raising provider
  under \<^verbatim>\<open>gpt3.5\<close>, and with the scenario's provider under \<^verbatim>\<open>gpt3.5\<close> and another
  one under \<^verbatim>\<open>gpt4\<close>, where the stored output is that of the \<^verbatim>\<open>gpt3.5\<close> provider
  and the run is the run of the scenario.
\<close>

theorem process_requirements_fixed_provider_witness:
  "process_requirements ex_bare_env 101 (PStr ''Hello world'') [ex_dict_other_model]
     ex_translated_db = (Some (Inr (PBool False)), ex_translated_db) \<and>
   process_requirements ex_raising_env 101 (PStr ''Hello world'') [ex_dict_other_model]
     ex_translated_db = (Some (Inl AnalysisException), ex_translated_db) \<and>
   (\<exists>db'. process_requirements ex_two_env 101 (PStr ''Hello world'') [ex_dict_other_model]
            ex_translated_db = (None, db') \<and>
          map res_output (drop (length (results ex_translated_db)) (results db')) =
            [''neutral'']) \<and>
   process_requirements ex_two_env 101 (PStr ''Hello world'') [ex_dict_other_model]
     ex_translated_db =
   process_requirements ex_env 101 (PStr ''Hello world'') [ex_dict] ex_translated_db"
proof -
  let ?t = "PStr ''Hello world''"
  note th = process_requirements_fixed_provider
  have n: "analysis_registry ex_bare_env ''gpt3.5'' = None \<and> [ex_dict_other_model] \<noteq> []"
    by (simp add: ex_defs)
  from th [where e = ex_bare_env and rs = "[ex_dict_other_model]" and cid = 101
      and t = ?t and db = ex_translated_db] n
  have 1: "process_requirements ex_bare_env 101 ?t [ex_dict_other_model] ex_translated_db =
      (Some (Inr (PBool False)), ex_translated_db)"
    by blast
  have f: "analysis_registry ex_raising_env ''gpt3.5'' = Some ex_raising_analyse \<and>
      ex_raising_analyse (prompt ex_dict_other_model) ?t = Inl AnalysisException"
    by (simp add: ex_defs)
  from th [where e = ex_raising_env and service = ex_raising_analyse
      and r = ex_dict_other_model and rs = "[]" and err = AnalysisException and cid = 101
      and t = ?t and db = ex_translated_db] f
  have 2: "process_requirements ex_raising_env 101 ?t [ex_dict_other_model] ex_translated_db =
      (Some (Inl AnalysisException), ex_translated_db)"
    by blast
  have s: "analysis_registry ex_two_env ''gpt3.5'' = Some ex_analyse"
    by (simp add: ex_defs)
  have a: "list_all (\<lambda>r. \<exists>s. ex_analyse (prompt r) ?t = Inr (PStr s)) [ex_dict_other_model]"
    by (simp add: ex_analyse_def)
  from th [where e = ex_two_env and service = ex_analyse and rs = "[ex_dict_other_model]"
      and cid = 101 and t = ?t and db = ex_translated_db] s a
  have "fst (process_requirements ex_two_env 101 ?t [ex_dict_other_model] ex_translated_db)
      = None"
    by blast
  then obtain db' where
    run: "process_requirements ex_two_env 101 ?t [ex_dict_other_model] ex_translated_db =
      (None, db')"
    by (cases "process_requirements ex_two_env 101 ?t [ex_dict_other_model] ex_translated_db")
      simp
  from th [where e = ex_two_env and service = ex_analyse and rs = "[ex_dict_other_model]"
      and cid = 101 and t = ?t and db = ex_translated_db and db' = db'] s run
  obtain new where
    new: "results db' = results ex_translated_db @ new"
      "map (\<lambda>x. Inr (PStr (res_output x))) new =
         map (\<lambda>r. ex_analyse (prompt r) ?t) [ex_dict_other_model]"
    by blast
  from new(2) have "map res_output new = [''neutral'']"
    by (cases new) (auto simp: ex_analyse_def)
  with new(1) have 3: "map res_output (drop (length (results ex_translated_db)) (results db'))
      = [''neutral'']"
    by simp
  have i: "analysis_registry ex_two_env ''gpt3.5'' = analysis_registry ex_env ''gpt3.5'' \<and>
      utcnow ex_two_env = utcnow ex_env \<and>
      map (\<lambda>r. (req_id r, name r, prompt r)) [ex_dict_other_model] =
        map (\<lambda>r. (req_id r, name r, prompt r)) [ex_dict]"
    by (simp add: ex_defs)
  from th [where e' = ex_two_env and e = ex_env and rs' = "[ex_dict_other_model]"
      and rs = "[ex_dict]" and cid = 101 and t = ?t and db = ex_translated_db] i
  have 4: "process_requirements ex_two_env 101 ?t [ex_dict_other_model] ex_translated_db =
      process_requirements ex_env 101 ?t [ex_dict] ex_translated_db"
    by blast
  from run 3 have 5: "\<exists>db'. process_requirements ex_two_env 101 ?t [ex_dict_other_model]
        ex_translated_db = (None, db') \<and>
      map res_output (drop (length (results ex_translated_db)) (results db')) = [''neutral'']"
    by (intro exI [of _ db'] conjI)
  show ?thesis
  proof (intro conjI)
    show "process_requirements ex_bare_env 101 ?t [ex_dict_other_model] ex_translated_db =
        (Some (Inr (PBool False)), ex_translated_db)"
      by (rule 1)
    show "process_requirements ex_raising_env 101 ?t [ex_dict_other_model] ex_translated_db =
        (Some (Inl AnalysisException), ex_translated_db)"
      by (rule 2)
    show "\<exists>db'. process_requirements ex_two_env 101 ?t [ex_dict_other_model]
          ex_translated_db = (None, db') \<and>
        map res_output (drop (length (results ex_translated_db)) (results db')) = [''neutral'']"
      by (rule 5)
    show "process_requirements ex_two_env 101 ?t [ex_dict_other_model] ex_translated_db =
        process_requirements ex_env 101 ?t [ex_dict] ex_translated_db"
      by (rule 4)
  qed
qed

end
